theory Spec2Isabelle
  imports Main "HOL-Library.Word"
begin

unbundle bit_operations_syntax

section \<open>Constants of common.h, common.c and lambda.h\<close>

type_synonym byte = "8 word"
type_synonym handle = nat

definition MAX_BUFFER_SIZE :: nat where
  "MAX_BUFFER_SIZE = 4096"

definition MAX_CQ_ENTRIES :: nat where
  "MAX_CQ_ENTRIES = 10"

definition LAMBDA_MAX_CODE_SIZE :: nat where
  "LAMBDA_MAX_CODE_SIZE = 1024 * 1024 * 3"

definition LAMBDA_MAX_INPUT_SIZE :: nat where
  "LAMBDA_MAX_INPUT_SIZE = MAX_BUFFER_SIZE"

text \<open>Access flags of \<^verbatim>\<open>infiniband/verbs.h\<close> (\<^verbatim>\<open>enum ibv_access_flags\<close>).\<close>

definition IBV_ACCESS_LOCAL_WRITE :: "32 word" where
  "IBV_ACCESS_LOCAL_WRITE = 1"

definition IBV_ACCESS_REMOTE_WRITE :: "32 word" where
  "IBV_ACCESS_REMOTE_WRITE = 2"

definition IBV_ACCESS_REMOTE_READ :: "32 word" where
  "IBV_ACCESS_REMOTE_READ = 4"

section \<open>Data model\<close>

datatype rdma_mode_t = MODE_SEND_RECV | MODE_WRITE | MODE_READ | MODE_LAMBDA

datatype rdma_op_t = OP_SEND | OP_WRITE | OP_READ

datatype rdma_status_t = RDMA_SUCCESS | RDMA_ERR_DEVICE | RDMA_ERR_RESOURCE | RDMA_ERR_COMMUNICATION

datatype ibv_qp_state = IBV_QPS_RESET | IBV_QPS_INIT | IBV_QPS_RTR | IBV_QPS_RTS

datatype ibv_wr_opcode = IBV_WR_SEND | IBV_WR_RDMA_WRITE_WITH_IMM | IBV_WR_RDMA_READ

text \<open>
  \<^verbatim>\<open>struct config_t\<close>. A pointer field is \<open>None\<close> when it is \<^verbatim>\<open>NULL\<close> and
  \<open>Some h\<close> when it holds the handle \<open>h\<close>; \<^verbatim>\<open>sock_fd\<close> is a plain \<^verbatim>\<open>int\<close>, for which
  the code reads 0 as "no socket".
\<close>

record config_t =
  "context" :: "handle option"
  pd :: "handle option"
  cq :: "handle option"
  qp :: "handle option"
  mr :: "handle option"
  buf :: "handle option"
  gid :: "128 word"
  sock_fd :: int

text \<open>\<^verbatim>\<open>struct config_t config = {}\<close>, the value every caller starts from.\<close>

definition config_zero :: config_t where
  "config_zero = \<lparr>context = None, pd = None, cq = None, qp = None, mr = None, buf = None,
     gid = 0, sock_fd = 0\<rparr>"

text \<open>\<^verbatim>\<open>struct qp_info_t\<close>.\<close>

record qp_info_t =
  qp_num :: "32 word"
  qi_gid :: "128 word"
  addr :: "64 word"
  rkey :: "32 word"

text \<open>
  \<^verbatim>\<open>sizeof(struct qp_info_t)\<close> on the LP64 targets the code is built for: the 4-byte
  \<^verbatim>\<open>qp_num\<close>, 4 bytes of padding before the 8-aligned 16-byte \<^verbatim>\<open>union ibv_gid\<close>, the
  8-byte \<^verbatim>\<open>addr\<close>, the 4-byte \<^verbatim>\<open>rkey\<close> and 4 bytes of tail padding.
\<close>

definition sizeof_qp_info_t :: nat where
  "sizeof_qp_info_t = 40"

text \<open>\<^verbatim>\<open>struct lambda_metadata\<close>.\<close>

record lambda_metadata =
  function_name :: "byte list"
  code_size :: "64 word"
  input_size :: "64 word"
  entry_offset :: "64 word"

definition sizeof_lambda_metadata :: nat where
  "sizeof_lambda_metadata = 152"

text \<open>The work request handed to \<^verbatim>\<open>ibv_post_send\<close>: one scatter/gather element and the
  operation-specific fields the code sets (the others stay zero-initialised).\<close>

record ibv_send_wr =
  sg_addr :: "handle option"
  sg_length :: nat
  sg_lkey :: "32 word"
  opcode :: ibv_wr_opcode
  imm_data :: "32 word"
  remote_addr :: "64 word"
  wr_rkey :: "32 word"

section \<open>The world outside the program\<close>

text \<open>
  Every call into libibverbs, libc or the kernel whose order matters is logged as an
  event. The trace is what an observer of the process sees. \<open>Ibv_post_send\<close> and
  \<open>Ibv_post_recv\<close> record the work requests the queue pair accepted; \<open>Ibv_post_send\<close>
  carries the bytes of the scatter/gather element at the time of the post.
  \<open>Printf_received\<close> is the line the write server prints for a message, and
  \<open>Call_lambda\<close> the jump into the received code.
\<close>

datatype event =
    Stderr string
  | Ibv_free_device_list handle
  | Ibv_destroy_qp handle
  | Ibv_dereg_mr handle
  | Free handle
  | Ibv_destroy_cq handle
  | Ibv_dealloc_pd handle
  | Ibv_close_device handle
  | Close int
  | Ibv_reg_mr handle handle nat "32 word"
  | Ibv_modify_qp handle ibv_qp_state "32 word"
  | Sys_write int nat
  | Sys_read int nat
  | Ibv_post_send handle ibv_send_wr "byte list"
  | Ibv_post_recv handle nat
  | Ibv_poll_cq handle
  | Printf_received "32 word" "byte list"
  | Call_lambda lambda_metadata

text \<open>
  What the environment answers to a call whose result the program cannot determine: a
  return code (for a call returning a pointer, non-zero stands for a non-\<^verbatim>\<open>NULL\<close>
  result; for a completion, the \<^verbatim>\<open>status\<close> of the work completion), the bytes the call
  or the peer delivers with it, and the immediate value of a work completion.
\<close>

datatype answer = Ans (rc: int) (bytes: "byte list") (imm: "32 word")

text \<open>
  The state of the world: the handles currently allocated (\<open>live\<close>) with the next fresh
  one, the open file descriptors, the contents of allocated blocks, the attributes the
  library gives to queue pairs and memory regions, the state of each queue pair, the trace
  so far, and the answers the environment is going to give, in order (\<open>env\<close>).
\<close>

record world =
  live :: "handle set"
  nxt :: handle
  open_fds :: "int set"
  heap :: "handle \<Rightarrow> byte list"
  qp_num_of :: "handle \<Rightarrow> 32 word"
  lkey_of :: "handle \<Rightarrow> 32 word"
  rkey_of :: "handle \<Rightarrow> 32 word"
  qp_state :: "handle \<Rightarrow> ibv_qp_state"
  trace :: "event list"
  env :: "answer list"

text \<open>
  How a call ends: it returns a value, the process exits with a code (\<^verbatim>\<open>die\<close> and
  \<^verbatim>\<open>exit\<close>), it runs into undefined behaviour (use of a dangling or \<^verbatim>\<open>NULL\<close> pointer,
  a read past the end of an object), or it never returns because the environment never
  answers.
\<close>

datatype 'a result = Returns 'a | Exits int | Faults | Blocks

fun and_then :: "'a result \<times> world \<Rightarrow> ('a \<Rightarrow> world \<Rightarrow> 'b result \<times> world) \<Rightarrow> 'b result \<times> world" where
  "and_then (Returns a, w) f = f a w"
| "and_then (Exits c, w) f = (Exits c, w)"
| "and_then (Faults, w) f = (Faults, w)"
| "and_then (Blocks, w) f = (Blocks, w)"

definition log_event :: "event \<Rightarrow> world \<Rightarrow> world" where
  "log_event e w = w\<lparr>trace := trace w @ [e]\<rparr>"

text \<open>The next answer of the environment; a call blocks when there is none.\<close>

definition ask :: "world \<Rightarrow> answer result \<times> world" where
  "ask w = (case env w of [] \<Rightarrow> (Blocks, w) | a # as \<Rightarrow> (Returns a, w\<lparr>env := as\<rparr>))"

text \<open>Releasing a handle: undefined behaviour unless the handle is live.\<close>

definition release :: "event \<Rightarrow> handle \<Rightarrow> world \<Rightarrow> unit result \<times> world" where
  "release e h w =
     (if h \<in> live w then (Returns (), (log_event e w)\<lparr>live := live w - {h}\<rparr>)
      else (Faults, log_event e w))"

text \<open>Acquiring a handle: the environment says whether the call succeeds; a successful
  call returns a fresh handle.\<close>

definition acquire :: "world \<Rightarrow> handle option result \<times> world" where
  "acquire w = and_then (ask w) (\<lambda>a w.
     if rc a \<noteq> 0 then (Returns (Some (nxt w)), w\<lparr>live := insert (nxt w) (live w), nxt := Suc (nxt w)\<rparr>)
     else (Returns None, w))"

text \<open>\<^verbatim>\<open>close(fd)\<close>: closing a descriptor that is not open fails with \<^verbatim>\<open>EBADF\<close>, which
  the code never looks at.\<close>

definition sys_close :: "int \<Rightarrow> world \<Rightarrow> unit result \<times> world" where
  "sys_close fd w = (Returns (), (log_event (Close fd) w)\<lparr>open_fds := open_fds w - {fd}\<rparr>)"

text \<open>\<^verbatim>\<open>die\<close>: the message goes to stderr and the process exits with code 1.\<close>

definition die :: "string \<Rightarrow> world \<Rightarrow> 'a result \<times> world" where
  "die message w = (Exits 1, log_event (Stderr message) w)"

section \<open>Resource management (common.c)\<close>

definition cleanup_qp :: "config_t \<Rightarrow> world \<Rightarrow> config_t result \<times> world" where
  "cleanup_qp config w =
     (case qp config of
        Some q \<Rightarrow> and_then (release (Ibv_destroy_qp q) q w) (\<lambda>_ w. (Returns (config\<lparr>qp := None\<rparr>), w))
      | None \<Rightarrow> (Returns config, w))"

text \<open>
  \<^verbatim>\<open>cleanup_resources\<close>. The argument is the pointer to the caller's struct (\<open>None\<close> for
  \<^verbatim>\<open>NULL\<close>); the struct as the call leaves it is returned.
\<close>

definition cleanup_resources :: "config_t option \<Rightarrow> world \<Rightarrow> config_t option result \<times> world" where
  "cleanup_resources config w =
     (case config of
        None \<Rightarrow> (Returns None, w)
      | Some c \<Rightarrow>
          and_then (if qp c \<noteq> None then cleanup_qp c w else (Returns c, w)) (\<lambda>c w.
          and_then (case mr c of Some m \<Rightarrow> release (Ibv_dereg_mr m) m w | None \<Rightarrow> (Returns (), w)) (\<lambda>_ w.
          and_then (case buf c of Some b \<Rightarrow> release (Free b) b w | None \<Rightarrow> (Returns (), w)) (\<lambda>_ w.
          and_then (case cq c of Some q \<Rightarrow> release (Ibv_destroy_cq q) q w | None \<Rightarrow> (Returns (), w)) (\<lambda>_ w.
          and_then (case pd c of Some p \<Rightarrow> release (Ibv_dealloc_pd p) p w | None \<Rightarrow> (Returns (), w)) (\<lambda>_ w.
          and_then (case context c of Some x \<Rightarrow> release (Ibv_close_device x) x w | None \<Rightarrow> (Returns (), w)) (\<lambda>_ w.
          and_then (if sock_fd c \<noteq> 0 then sys_close (sock_fd c) w else (Returns (), w)) (\<lambda>_ w.
          (Returns (Some c), w)))))))))"

text \<open>The handles a struct refers to, and what it means for a struct to hold something live.\<close>

definition handles_of :: "config_t \<Rightarrow> handle set" where
  "handles_of c = set_option (context c) \<union> set_option (pd c) \<union> set_option (cq c)
     \<union> set_option (qp c) \<union> set_option (mr c) \<union> set_option (buf c)"

definition holds_live :: "config_t \<Rightarrow> world \<Rightarrow> bool" where
  "holds_live c w \<longleftrightarrow> handles_of c \<inter> live w \<noteq> {} \<or> (sock_fd c \<noteq> 0 \<and> sock_fd c \<in> open_fds w)"

text \<open>A struct that owns what it refers to: its handles are live and no two fields share one.\<close>

definition owned :: "config_t \<Rightarrow> world \<Rightarrow> bool" where
  "owned c w \<longleftrightarrow>
     (let hs = concat (map (\<lambda>p. case p of Some h \<Rightarrow> [h] | None \<Rightarrow> [])
                 [context c, pd c, cq c, qp c, mr c, buf c])
      in distinct hs \<and> list_all (\<lambda>h. h \<in> live w) hs)"

text \<open>The access flags \<^verbatim>\<open>init_resources\<close> computes from the mode (its \<^verbatim>\<open>switch\<close>).\<close>

definition init_resources_access_flags :: "rdma_mode_t \<Rightarrow> 32 word" where
  "init_resources_access_flags mode =
     (case mode of
        MODE_WRITE \<Rightarrow> IBV_ACCESS_LOCAL_WRITE OR IBV_ACCESS_REMOTE_WRITE
      | MODE_READ \<Rightarrow> IBV_ACCESS_LOCAL_WRITE OR IBV_ACCESS_REMOTE_READ
      | MODE_SEND_RECV \<Rightarrow> IBV_ACCESS_LOCAL_WRITE
      | MODE_LAMBDA \<Rightarrow> IBV_ACCESS_LOCAL_WRITE OR IBV_ACCESS_REMOTE_WRITE)"

text \<open>A block of exactly \<open>n\<close> bytes holding \<open>bs\<close> (cut or zero-padded to size).\<close>

definition block :: "nat \<Rightarrow> byte list \<Rightarrow> byte list" where
  "block n bs = take n (bs @ replicate n 0)"

text \<open>Little-endian reading of an integer from bytes.\<close>

fun le_word :: "byte list \<Rightarrow> 'a::len word" where
  "le_word [] = 0"
| "le_word (b # bs) = ucast b OR push_bit 8 (le_word bs)"

text \<open>The exit sequence shared by the failing steps of \<^verbatim>\<open>init_resources\<close>:
  \<^verbatim>\<open>cleanup_resources(config); ibv_free_device_list(dev_list); return status;\<close>\<close>

definition cleanup_and_return ::
  "rdma_status_t \<Rightarrow> config_t \<Rightarrow> handle \<Rightarrow> world \<Rightarrow> (rdma_status_t \<times> config_t option) result \<times> world" where
  "cleanup_and_return status c dev_list w =
     and_then (cleanup_resources (Some c) w) (\<lambda>c' w.
     and_then (release (Ibv_free_device_list dev_list) dev_list w) (\<lambda>_ w.
     (Returns (status, c'), w)))"

text \<open>
  \<^verbatim>\<open>init_resources\<close>. Each library call takes the next answer of the environment. A
  pointer result is stored in the struct before it is tested, as in the code, so a failed
  call leaves \<^verbatim>\<open>NULL\<close> in its field. \<^verbatim>\<open>malloc\<close> gives a block of \<^verbatim>\<open>MAX_BUFFER_SIZE\<close>
  bytes with contents chosen by the environment; \<^verbatim>\<open>ibv_query_gid\<close> returns 0 on success.
\<close>

definition init_resources ::
  "config_t option \<Rightarrow> rdma_mode_t \<Rightarrow> world \<Rightarrow> (rdma_status_t \<times> config_t option) result \<times> world" where
  "init_resources config mode w =
     (case config of
        None \<Rightarrow> (Returns (RDMA_ERR_RESOURCE, None), w)
      | Some c \<Rightarrow>
        and_then (acquire w) (\<lambda>dev_list w.
        case dev_list of
          None \<Rightarrow> (Returns (RDMA_ERR_DEVICE, Some c), w)
        | Some dl \<Rightarrow>
          and_then (ask w) (\<lambda>device w.
          if rc device = 0 then
            and_then (release (Ibv_free_device_list dl) dl w) (\<lambda>_ w.
            (Returns (RDMA_ERR_DEVICE, Some c), w))
          else
          and_then (acquire w) (\<lambda>x w.
          let c = c\<lparr>context := x\<rparr> in
          if context c = None then
            and_then (release (Ibv_free_device_list dl) dl w) (\<lambda>_ w.
            (Returns (RDMA_ERR_DEVICE, Some c), w))
          else
          and_then (acquire w) (\<lambda>x w.
          let c = c\<lparr>pd := x\<rparr> in
          if pd c = None then cleanup_and_return RDMA_ERR_RESOURCE c dl w
          else
          and_then (acquire w) (\<lambda>x w.
          let c = c\<lparr>cq := x\<rparr> in
          if cq c = None then cleanup_and_return RDMA_ERR_RESOURCE c dl w
          else
          and_then (acquire w) (\<lambda>x w.
          let c = c\<lparr>qp := x\<rparr>;
              w = (case x of Some q \<Rightarrow> w\<lparr>qp_state := (qp_state w)(q := IBV_QPS_RESET)\<rparr> | None \<Rightarrow> w) in
          if qp c = None then cleanup_and_return RDMA_ERR_RESOURCE c dl w
          else
          and_then (and_then (ask w) (\<lambda>a w.
             if rc a \<noteq> 0 then
               (Returns (Some (nxt w)),
                w\<lparr>live := insert (nxt w) (live w), heap := (heap w)(nxt w := block MAX_BUFFER_SIZE (bytes a)),
                  nxt := Suc (nxt w)\<rparr>)
             else (Returns None, w))) (\<lambda>x w.
          let c = c\<lparr>buf := x\<rparr> in
          if buf c = None then cleanup_and_return RDMA_ERR_RESOURCE c dl w
          else
          let access_flags = init_resources_access_flags mode in
          and_then (acquire (log_event (Ibv_reg_mr (the (pd c)) (the (buf c)) MAX_BUFFER_SIZE access_flags) w)) (\<lambda>x w.
          let c = c\<lparr>mr := x\<rparr> in
          if mr c = None then cleanup_and_return RDMA_ERR_RESOURCE c dl w
          else
          and_then (ask w) (\<lambda>a w.
          if rc a \<noteq> 0 then cleanup_and_return RDMA_ERR_DEVICE c dl w
          else
          let c = c\<lparr>gid := le_word (take 16 (bytes a))\<rparr> in
          and_then (release (Ibv_free_device_list dl) dl w) (\<lambda>_ w.
          (Returns (RDMA_SUCCESS, Some c), w))))))))))))"

text \<open>
  The steps of \<^verbatim>\<open>init_resources\<close> in order, and the first of them the environment lets
  fail: the \<open>k\<close>-th answer of the environment belongs to the \<open>k\<close>-th step.
\<close>

datatype init_step = Device_list | First_device | Open_device | Alloc_pd | Create_cq | Create_qp
  | Malloc_buf | Reg_mr | Query_gid

definition init_steps :: "init_step list" where
  "init_steps = [Device_list, First_device, Open_device, Alloc_pd, Create_cq, Create_qp,
     Malloc_buf, Reg_mr, Query_gid]"

definition step_fails :: "init_step \<Rightarrow> answer \<Rightarrow> bool" where
  "step_fails s a = (if s = Query_gid then rc a \<noteq> 0 else rc a = 0)"

fun first_failure :: "init_step list \<Rightarrow> answer list \<Rightarrow> init_step option" where
  "first_failure [] as = None"
| "first_failure (s # ss) [] = None"
| "first_failure (s # ss) (a # as) = (if step_fails s a then Some s else first_failure ss as)"

text \<open>The error class the specification gives to a failure of each step.\<close>

fun spec_status_of_step :: "init_step \<Rightarrow> rdma_status_t" where
  "spec_status_of_step Device_list = RDMA_ERR_DEVICE"
| "spec_status_of_step First_device = RDMA_ERR_DEVICE"
| "spec_status_of_step Open_device = RDMA_ERR_DEVICE"
| "spec_status_of_step Query_gid = RDMA_ERR_DEVICE"
| "spec_status_of_step Alloc_pd = RDMA_ERR_RESOURCE"
| "spec_status_of_step Create_cq = RDMA_ERR_RESOURCE"
| "spec_status_of_step Create_qp = RDMA_ERR_RESOURCE"
| "spec_status_of_step Malloc_buf = RDMA_ERR_RESOURCE"
| "spec_status_of_step Reg_mr = RDMA_ERR_RESOURCE"

text \<open>Handles are allocated in increasing order: every live handle is below the next one.\<close>

definition wf_world :: "world \<Rightarrow> bool" where
  "wf_world w \<longleftrightarrow> (\<forall>h \<in> live w. h < nxt w)"

text \<open>
  A failed initialisation that cleaned up after itself: the call returns the given status,
  the world has the live handles and open descriptors it had before the call, and the
  struct it leaves refers to nothing live.
\<close>

definition fails_cleanly :: "rdma_status_t \<Rightarrow> rdma_mode_t \<Rightarrow> world \<Rightarrow> bool" where
  "fails_cleanly status mode w =
     (case init_resources (Some config_zero) mode w of
        (Returns (status', Some c'), w') \<Rightarrow>
           status' = status \<and> live w' = live w \<and> open_fds w' = open_fds w \<and> \<not> holds_live c' w'
      | _ \<Rightarrow> False)"

section \<open>Operations (common.c)\<close>

text \<open>\<^verbatim>\<open>htonl\<close> and \<^verbatim>\<open>ntohl\<close> on a little-endian host: the four bytes are reversed.\<close>

definition htonl :: "32 word \<Rightarrow> 32 word" where
  "htonl x = push_bit 24 (x AND 0xFF) OR push_bit 8 (x AND 0xFF00)
     OR (drop_bit 8 x AND 0xFF00) OR (drop_bit 24 x AND 0xFF)"


text \<open>
  \<^verbatim>\<open>memcpy(dst, src, n)\<close> into an allocated block: reading past the end of the source
  object or writing through a pointer that is not live is undefined behaviour.
\<close>

definition memcpy :: "handle option \<Rightarrow> byte list \<Rightarrow> nat \<Rightarrow> world \<Rightarrow> unit result \<times> world" where
  "memcpy dst src n w =
     (case dst of
        None \<Rightarrow> (Faults, w)
      | Some b \<Rightarrow>
          if b \<notin> live w \<or> n > length src \<or> n > length (heap w b) then (Faults, w)
          else (Returns (), w\<lparr>heap := (heap w)(b := take n src @ drop n (heap w b))\<rparr>))"

text \<open>Reading a field through a pointer to a library object (\<^verbatim>\<open>config->mr->lkey\<close>).\<close>

definition deref :: "handle option \<Rightarrow> (handle \<Rightarrow> 'a) \<Rightarrow> world \<Rightarrow> 'a result \<times> world" where
  "deref p field w =
     (case p of None \<Rightarrow> (Faults, w) | Some h \<Rightarrow> if h \<in> live w then (Returns (field h), w) else (Faults, w))"

text \<open>
  \<^verbatim>\<open>post_operation\<close>. \<open>data\<close> is the object \<^verbatim>\<open>data\<close> points to (\<open>None\<close> for \<^verbatim>\<open>NULL\<close>),
  \<open>remote_info\<close> likewise. The length \<open>len\<close> is a \<^verbatim>\<open>size_t\<close>; \<^verbatim>\<open>htonl\<close> takes its low 32 bits.
\<close>

definition post_operation ::
  "config_t option \<Rightarrow> rdma_op_t \<Rightarrow> byte list option \<Rightarrow> qp_info_t option \<Rightarrow> nat \<Rightarrow> world
     \<Rightarrow> unit result \<times> world" where
  "post_operation config op data remote_info len w =
     (case config of
        None \<Rightarrow> (Returns (), w)
      | Some c \<Rightarrow>
        if len > MAX_BUFFER_SIZE then (Returns (), w)
        else
        and_then (deref (mr c) (lkey_of w) w) (\<lambda>lkey w.
        let wr = \<lparr>sg_addr = buf c, sg_length = len, sg_lkey = lkey, opcode = IBV_WR_SEND,
                  imm_data = 0, remote_addr = 0, wr_rkey = 0\<rparr> in
        and_then
          (case op of
             OP_SEND \<Rightarrow>
               and_then (case data of Some d \<Rightarrow> memcpy (buf c) d len w | None \<Rightarrow> (Returns (), w)) (\<lambda>_ w.
               (Returns (wr\<lparr>opcode := IBV_WR_SEND\<rparr>), w))
           | OP_WRITE \<Rightarrow>
               and_then (case data of Some d \<Rightarrow> memcpy (buf c) d len w | None \<Rightarrow> (Returns (), w)) (\<lambda>_ w.
               case remote_info of
                 None \<Rightarrow> (Faults, w)
               | Some ri \<Rightarrow>
                   (Returns (wr\<lparr>opcode := IBV_WR_RDMA_WRITE_WITH_IMM, imm_data := htonl (of_nat len),
                               remote_addr := addr ri, wr_rkey := rkey ri\<rparr>), w))
           | OP_READ \<Rightarrow>
               (case remote_info of
                  None \<Rightarrow> (Faults, w)
                | Some ri \<Rightarrow>
                    (Returns (wr\<lparr>opcode := IBV_WR_RDMA_READ, remote_addr := addr ri, wr_rkey := rkey ri\<rparr>), w)))
          (\<lambda>wr w.
        and_then (deref (qp c) id w) (\<lambda>q w.
        and_then (ask w) (\<lambda>a w.
        if rc a \<noteq> 0 then die ''Failed to post operation'' w
        else (Returns (),
              log_event (Ibv_post_send q wr (case sg_addr wr of Some b \<Rightarrow> take len (heap w b) | None \<Rightarrow> [])) w))))))"

text \<open>\<^verbatim>\<open>post_receive\<close>.\<close>

definition post_receive :: "config_t \<Rightarrow> world \<Rightarrow> unit result \<times> world" where
  "post_receive c w =
     and_then (deref (mr c) (lkey_of w) w) (\<lambda>lkey w.
     and_then (deref (qp c) id w) (\<lambda>q w.
     and_then (ask w) (\<lambda>a w.
     if rc a \<noteq> 0 then die ''Failed to post RR'' w
     else (Returns (), log_event (Ibv_post_recv q MAX_BUFFER_SIZE) w))))"

text \<open>
  What a completion leaves in the registered buffer: the bytes the peer has written or
  sent, from the start of the buffer, the rest of the buffer as it was.
\<close>

definition deliver :: "handle option \<Rightarrow> byte list \<Rightarrow> world \<Rightarrow> world" where
  "deliver p d w =
     (case p of
        None \<Rightarrow> w
      | Some b \<Rightarrow> w\<lparr>heap := (heap w)(b := take (length (heap w b)) (d @ drop (length d) (heap w b)))\<rparr>)"

text \<open>
  Polling the completion queue until it gives one completion: the next answer of the
  environment (status, delivered bytes, immediate value); the poll spins forever when
  there is none.
\<close>

definition poll_one :: "config_t \<Rightarrow> world \<Rightarrow> answer result \<times> world" where
  "poll_one c w =
     and_then (deref (cq c) id w) (\<lambda>q w.
     and_then (ask w) (\<lambda>a w.
     (Returns a, deliver (buf c) (bytes a) (log_event (Ibv_poll_cq q) w))))"

text \<open>\<^verbatim>\<open>wait_completion\<close>; status 0 is \<^verbatim>\<open>IBV_WC_SUCCESS\<close>.\<close>

definition wait_completion :: "config_t \<Rightarrow> world \<Rightarrow> unit result \<times> world" where
  "wait_completion c w =
     and_then (poll_one c w) (\<lambda>wc w.
     if rc wc \<noteq> 0 then die ''RDMA operation failed'' (log_event (Stderr ''Completion error'') w)
     else (Returns (), w))"

section \<open>Read and write modes (rdma_read.c, rdma_write.c)\<close>

text \<open>\<^verbatim>\<open>rd_post_read\<close>; the struct \<^verbatim>\<open>remote_info\<close> points to is returned as the call leaves it.\<close>

definition rd_post_read ::
  "config_t option \<Rightarrow> 64 word \<Rightarrow> nat \<Rightarrow> qp_info_t \<Rightarrow> world \<Rightarrow> qp_info_t result \<times> world" where
  "rd_post_read config remote_offset len remote_info w =
     (let remote_info = remote_info\<lparr>addr := addr remote_info + remote_offset\<rparr> in
      and_then (post_operation config OP_READ None (Some remote_info) len w) (\<lambda>_ w.
      let remote_info = remote_info\<lparr>addr := addr remote_info - remote_offset\<rparr> in
      (Returns remote_info, w)))"

text \<open>\<^verbatim>\<open>strlen\<close> of the C string stored in \<open>bs\<close>, when there is a terminator.\<close>

definition strlen :: "byte list \<Rightarrow> nat" where
  "strlen bs = length (takeWhile (\<lambda>b. b \<noteq> 0) bs)"

text \<open>\<^verbatim>\<open>rw_post_write\<close>: the message is a C string, read up to its terminator.\<close>

definition rw_post_write :: "config_t option \<Rightarrow> byte list \<Rightarrow> qp_info_t option \<Rightarrow> world \<Rightarrow> unit result \<times> world" where
  "rw_post_write config message remote_info w =
     (if 0 \<notin> set message then (Faults, w)
      else let len = strlen message + 1 in
           post_operation config OP_WRITE (Some message) remote_info len w)"



section \<open>Lambda mode (lambda_server.c)\<close>

text \<open>\<^verbatim>\<open>post_lambda_send\<close>, \<^verbatim>\<open>post_lambda_receive\<close> and \<^verbatim>\<open>post_lambda_write\<close>, with the
  \<^verbatim>\<open>int\<close> they return.\<close>

definition post_lambda_send :: "config_t option \<Rightarrow> byte list option \<Rightarrow> world \<Rightarrow> int result \<times> world" where
  "post_lambda_send config buf' w =
     and_then (post_operation config OP_SEND buf' None MAX_BUFFER_SIZE w) (\<lambda>_ w. (Returns 0, w))"

definition post_lambda_receive :: "config_t \<Rightarrow> world \<Rightarrow> int result \<times> world" where
  "post_lambda_receive config w =
     and_then (post_receive config w) (\<lambda>_ w. (Returns 0, w))"

definition post_lambda_write ::
  "config_t option \<Rightarrow> byte list option \<Rightarrow> qp_info_t option \<Rightarrow> world \<Rightarrow> int result \<times> world" where
  "post_lambda_write config buf' remote_info w =
     and_then (post_operation config OP_WRITE buf' remote_info MAX_BUFFER_SIZE w) (\<lambda>_ w. (Returns 0, w))"

text \<open>
  What \<^verbatim>\<open>init_resources\<close> establishes and the operations rely on: the struct holds a live
  memory region, queue pair and completion queue, and a live buffer of \<^verbatim>\<open>MAX_BUFFER_SIZE\<close>
  bytes.
\<close>

definition usable :: "config_t \<Rightarrow> world \<Rightarrow> bool" where
  "usable c w =
     (case (mr c, qp c, cq c, buf c) of
        (Some m, Some q, Some k, Some b) \<Rightarrow>
           m \<in> live w \<and> q \<in> live w \<and> k \<in> live w \<and> b \<in> live w \<and> length (heap w b) = MAX_BUFFER_SIZE
      | _ \<Rightarrow> False)"

section \<open>Queue pair state transitions (common.c)\<close>

text \<open>
  \<^verbatim>\<open>ibv_modify_qp\<close>: the environment says whether the library accepts the transition; an
  accepted one moves the queue pair to the new state and is logged with the attribute
  that identifies it (access flags for INIT, destination queue pair number for RTR).
  A non-zero return leaves the queue pair as it was.
\<close>

definition ibv_modify_qp :: "handle \<Rightarrow> ibv_qp_state \<Rightarrow> 32 word \<Rightarrow> world \<Rightarrow> int result \<times> world" where
  "ibv_modify_qp q s attr w =
     and_then (deref (Some q) id w) (\<lambda>q w.
     and_then (ask w) (\<lambda>a w.
     if rc a = 0 then (Returns 0, log_event (Ibv_modify_qp q s attr) (w\<lparr>qp_state := (qp_state w)(q := s)\<rparr>))
     else (Returns (rc a), w)))"

definition modify_qp_to_init :: "handle \<Rightarrow> 32 word \<Rightarrow> world \<Rightarrow> unit result \<times> world" where
  "modify_qp_to_init q access_flags w =
     and_then (ibv_modify_qp q IBV_QPS_INIT access_flags w) (\<lambda>r w.
     if r \<noteq> 0 then die ''Failed to modify QP to INIT'' w else (Returns (), w))"

definition modify_qp_to_rtr :: "handle \<Rightarrow> 32 word \<Rightarrow> 128 word \<Rightarrow> world \<Rightarrow> unit result \<times> world" where
  "modify_qp_to_rtr q remote_qpn remote_gid w =
     and_then (ibv_modify_qp q IBV_QPS_RTR remote_qpn w) (\<lambda>r w.
     if r \<noteq> 0 then die ''Failed to modify QP to RTR'' w else (Returns (), w))"

definition modify_qp_to_rts :: "handle \<Rightarrow> world \<Rightarrow> unit result \<times> world" where
  "modify_qp_to_rts q w =
     and_then (ibv_modify_qp q IBV_QPS_RTS 0 w) (\<lambda>r w.
     if r \<noteq> 0 then die ''Failed to modify QP to RTS'' w else (Returns (), w))"

section \<open>Connection management (common.c)\<close>

text \<open>
  The retry loop of \<^verbatim>\<open>setup_socket\<close>: \<open>retry_count\<close> attempts are left; the result says
  whether a \<^verbatim>\<open>connect\<close> succeeded. The retry message is printed while attempts remain.
\<close>

fun connect_retry :: "nat \<Rightarrow> world \<Rightarrow> bool result \<times> world" where
  "connect_retry 0 w = (Returns False, w)"
| "connect_retry (Suc retry_count) w =
     and_then (ask w) (\<lambda>a w.
     if rc a = 0 then (Returns True, w)
     else connect_retry retry_count
            (if retry_count > 0 then log_event (Stderr ''Connection failed, retrying in 1 second...'') w else w))"

text \<open>
  \<^verbatim>\<open>setup_socket\<close>. \<open>server_name\<close> is \<open>None\<close> for \<^verbatim>\<open>NULL\<close> (server role). Each system
  call takes the next answer of the environment: \<^verbatim>\<open>socket\<close> and \<^verbatim>\<open>accept\<close> return the new
  descriptor or a negative value, \<^verbatim>\<open>gethostbyname\<close> a pointer, the others a return code.
\<close>

definition setup_socket :: "config_t \<Rightarrow> string option \<Rightarrow> world \<Rightarrow> config_t result \<times> world" where
  "setup_socket c server_name w =
     (case server_name of
        Some name \<Rightarrow>
          and_then (ask w) (\<lambda>a w.
          let c = c\<lparr>sock_fd := rc a\<rparr> in
          if sock_fd c < 0 then die ''Failed to create socket'' w
          else
          let w = w\<lparr>open_fds := insert (sock_fd c) (open_fds w)\<rparr> in
          and_then (ask w) (\<lambda>server w.
          if rc server = 0 then die ''No such host'' w
          else
          and_then (ask w) (\<lambda>a w.
          if rc a < 0 then
            and_then (sys_close (sock_fd c) w) (\<lambda>_ w. die ''Failed to set socket timeout'' w)
          else
          and_then (ask w) (\<lambda>a w.
          if rc a < 0 then
            and_then (sys_close (sock_fd c) w) (\<lambda>_ w. die ''Failed to set socket timeout'' w)
          else
          and_then (connect_retry 3 w) (\<lambda>connected w.
          if \<not> connected then
            and_then (sys_close (sock_fd c) w) (\<lambda>_ w. die ''Failed to connect after multiple attempts'' w)
          else (Returns c, w))))))
      | None \<Rightarrow>
          and_then (ask w) (\<lambda>a w.
          let listen_fd = rc a in
          if listen_fd < 0 then die ''Failed to create socket'' w
          else
          let w = w\<lparr>open_fds := insert listen_fd (open_fds w)\<rparr> in
          and_then (ask w) (\<lambda>_ w.
          and_then (ask w) (\<lambda>a w.
          if rc a < 0 then
            and_then (sys_close listen_fd w) (\<lambda>_ w. die ''Failed to bind'' w)
          else
          and_then (ask w) (\<lambda>_ w.
          and_then (ask w) (\<lambda>a w.
          let c = c\<lparr>sock_fd := rc a\<rparr> in
          if sock_fd c < 0 then
            and_then (sys_close listen_fd w) (\<lambda>_ w. die ''Failed to accept'' w)
          else
          let w = w\<lparr>open_fds := insert (sock_fd c) (open_fds w)\<rparr> in
          and_then (sys_close listen_fd w) (\<lambda>_ w.
          (Returns c, w))))))))"

text \<open>
  The record as it arrives from the stream, in the layout of \<^verbatim>\<open>struct qp_info_t\<close>
  (offsets 0, 8, 24 and 32).
\<close>

definition qp_info_of_bytes :: "byte list \<Rightarrow> qp_info_t" where
  "qp_info_of_bytes bs =
     \<lparr>qp_num = le_word (take 4 bs), qi_gid = le_word (take 16 (drop 8 bs)),
      addr = le_word (take 8 (drop 24 bs)), rkey = le_word (take 4 (drop 32 bs))\<rparr>"

text \<open>
  \<^verbatim>\<open>write\<close> and \<^verbatim>\<open>read\<close> of \<open>n\<close> bytes on the control socket: the call is logged, and the
  environment gives its return value and, for a read, the bytes received.
\<close>

definition sys_write :: "int \<Rightarrow> nat \<Rightarrow> world \<Rightarrow> int result \<times> world" where
  "sys_write fd n w = and_then (ask (log_event (Sys_write fd n) w)) (\<lambda>a w. (Returns (rc a), w))"

definition sys_read :: "int \<Rightarrow> nat \<Rightarrow> world \<Rightarrow> (int \<times> byte list) result \<times> world" where
  "sys_read fd n w = and_then (ask (log_event (Sys_read fd n) w)) (\<lambda>a w. (Returns (rc a, bytes a), w))"

text \<open>\<^verbatim>\<open>exchange_qp_info\<close>; the record read from the peer is returned.\<close>

definition exchange_qp_info ::
  "config_t \<Rightarrow> string option \<Rightarrow> qp_info_t \<Rightarrow> world \<Rightarrow> qp_info_t result \<times> world" where
  "exchange_qp_info c server_name local_info w =
     (case server_name of
        Some name \<Rightarrow>
          and_then (sys_write (sock_fd c) sizeof_qp_info_t w) (\<lambda>n w.
          if n \<noteq> int sizeof_qp_info_t then
            and_then (sys_close (sock_fd c) w) (\<lambda>_ w. die ''Failed to send local QP info'' w)
          else
          and_then (sys_read (sock_fd c) sizeof_qp_info_t w) (\<lambda>(n, bs) w.
          if n \<noteq> int sizeof_qp_info_t then
            and_then (sys_close (sock_fd c) w) (\<lambda>_ w. die ''Failed to receive remote QP info'' w)
          else (Returns (qp_info_of_bytes bs), w)))
      | None \<Rightarrow>
          and_then (sys_read (sock_fd c) sizeof_qp_info_t w) (\<lambda>(n, bs) w.
          if n \<noteq> int sizeof_qp_info_t then
            and_then (sys_close (sock_fd c) w) (\<lambda>_ w. die ''Failed to receive remote QP info'' w)
          else
          and_then (sys_write (sock_fd c) sizeof_qp_info_t w) (\<lambda>n w.
          if n \<noteq> int sizeof_qp_info_t then
            and_then (sys_close (sock_fd c) w) (\<lambda>_ w. die ''Failed to send local QP info'' w)
          else (Returns (qp_info_of_bytes bs), w))))"

text \<open>The access flags \<^verbatim>\<open>connect_qps\<close> computes from the mode (its \<^verbatim>\<open>switch\<close>).\<close>

definition connect_qps_access_flags :: "rdma_mode_t \<Rightarrow> 32 word" where
  "connect_qps_access_flags mode =
     (case mode of
        MODE_WRITE \<Rightarrow> IBV_ACCESS_LOCAL_WRITE OR IBV_ACCESS_REMOTE_WRITE
      | MODE_READ \<Rightarrow> IBV_ACCESS_LOCAL_WRITE OR IBV_ACCESS_REMOTE_READ
      | _ \<Rightarrow> IBV_ACCESS_LOCAL_WRITE)"

text \<open>
  \<^verbatim>\<open>connect_qps\<close>. \<open>remote_info\<close> is \<open>None\<close> for a \<^verbatim>\<open>NULL\<close> pointer and otherwise the
  struct it points to; the struct (with its socket) and what \<open>remote_info\<close> points to after
  the call are returned.
\<close>

definition connect_qps ::
  "config_t \<Rightarrow> string option \<Rightarrow> qp_info_t option \<Rightarrow> rdma_mode_t \<Rightarrow> world
     \<Rightarrow> (config_t \<times> qp_info_t option) result \<times> world" where
  "connect_qps c server_name remote_info mode w =
     and_then (deref (qp c) (qp_num_of w) w) (\<lambda>local_qp_num w.
     and_then (deref (mr c) (rkey_of w) w) (\<lambda>local_rkey w.
     let local_qp_info = \<lparr>qp_num = local_qp_num, qi_gid = gid c,
           addr = (case buf c of Some b \<Rightarrow> of_nat b | None \<Rightarrow> 0), rkey = local_rkey\<rparr> in
     and_then (setup_socket c server_name w) (\<lambda>c w.
     and_then (exchange_qp_info c server_name local_qp_info w) (\<lambda>remote_qp_info w.
     let remote_info = (case remote_info of Some _ \<Rightarrow> Some remote_qp_info | None \<Rightarrow> None);
         access_flags = connect_qps_access_flags mode in
     and_then (modify_qp_to_init (the (qp c)) access_flags w) (\<lambda>_ w.
     and_then (modify_qp_to_rtr (the (qp c)) (qp_num remote_qp_info) (qi_gid remote_qp_info) w) (\<lambda>_ w.
     and_then (modify_qp_to_rts (the (qp c)) w) (\<lambda>_ w.
     (Returns (c, remote_info), w))))))))"

text \<open>\<^verbatim>\<open>setup_rdma_connection\<close>.\<close>

definition setup_rdma_connection ::
  "config_t \<Rightarrow> string option \<Rightarrow> rdma_mode_t \<Rightarrow> qp_info_t option \<Rightarrow> world
     \<Rightarrow> (rdma_status_t \<times> config_t \<times> qp_info_t option) result \<times> world" where
  "setup_rdma_connection c server_name mode remote_info w =
     and_then (init_resources (Some c) mode w) (\<lambda>(status, c') w.
     let c = (case c' of Some c \<Rightarrow> c | None \<Rightarrow> c) in
     if status \<noteq> RDMA_SUCCESS then
       (Returns (status, c, remote_info), log_event (Stderr ''Failed to initialize resources'') w)
     else
     and_then (connect_qps c server_name remote_info mode w) (\<lambda>(c, remote_info) w.
     (Returns (RDMA_SUCCESS, c, remote_info), w)))"

text \<open>
  What has been done to a queue pair, read off a trace: the states it was moved to, and
  \<open>None\<close> for each work request posted on it.
\<close>

fun qp_history :: "handle \<Rightarrow> event list \<Rightarrow> ibv_qp_state option list" where
  "qp_history q [] = []"
| "qp_history q (Ibv_modify_qp h s attr # es) = (if h = q then Some s # qp_history q es else qp_history q es)"
| "qp_history q (Ibv_post_send h wr p # es) = (if h = q then None # qp_history q es else qp_history q es)"
| "qp_history q (Ibv_post_recv h n # es) = (if h = q then None # qp_history q es else qp_history q es)"
| "qp_history q (e # es) = qp_history q es"

text \<open>From \<open>w\<close> to \<open>w'\<close> the live handles, the queue pair states and the history of the
  queue pair \<open>q\<close> have stayed as they were.\<close>

definition quiet :: "handle \<Rightarrow> world \<Rightarrow> world \<Rightarrow> bool" where
  "quiet q w w' \<longleftrightarrow> live w' = live w \<and> qp_state w' = qp_state w \<and>
     qp_history q (trace w') = qp_history q (trace w)"

text \<open>The way a call ended, without the value it returned.\<close>

datatype outcome = Returned | Exited int | Faulted | Blocked

fun outcome_of :: "'a result \<Rightarrow> outcome" where
  "outcome_of (Returns a) = Returned"
| "outcome_of (Exits c) = Exited c"
| "outcome_of Faults = Faulted"
| "outcome_of Blocks = Blocked"





text \<open>\<^verbatim>\<open>struct lambda_memory_regions\<close>: the code region is a block of its own, the input
  region is the registered buffer and the output region a position relative to it.\<close>

record lambda_memory_regions =
  code_region :: "handle option"
  input_region :: "handle option"
  output_region :: "(handle \<times> nat) option"
  code_mr :: "handle option"
  input_mr :: "handle option"
  output_mr :: "handle option"

text \<open>Little-endian bytes of an integer, and the metadata record as it lies in the buffer
  (\<^verbatim>\<open>function_name\<close> at offset 0, \<^verbatim>\<open>code_size\<close> at 128, \<^verbatim>\<open>input_size\<close> at 136,
  \<^verbatim>\<open>entry_offset\<close> at 144).\<close>

fun le_bytes :: "nat \<Rightarrow> 'a::len word \<Rightarrow> byte list" where
  "le_bytes 0 x = []"
| "le_bytes (Suc n) x = ucast x # le_bytes n (drop_bit 8 x)"

definition lambda_metadata_of_bytes :: "byte list \<Rightarrow> lambda_metadata" where
  "lambda_metadata_of_bytes bs =
     \<lparr>function_name = take 128 bs, code_size = le_word (take 8 (drop 128 bs)),
      input_size = le_word (take 8 (drop 136 bs)), entry_offset = le_word (take 8 (drop 144 bs))\<rparr>"

text \<open>
  The result record the server builds in \<^verbatim>\<open>result_buf\<close>: the status, the output size
  and, when the size is not zero, as many output bytes as fit. The array is not
  initialised in the code; the bytes the code does not write are zero here.
\<close>

definition build_result_buf :: "int \<Rightarrow> 64 word \<Rightarrow> byte list \<Rightarrow> byte list" where
  "build_result_buf result output_size output =
     (let data_offset = 4 + 8;
          max_copy = MAX_BUFFER_SIZE - data_offset;
          bytes_to_copy = (if unat output_size < max_copy then unat output_size else max_copy)
      in block MAX_BUFFER_SIZE
           (le_bytes 4 (word_of_int result :: 32 word) @ le_bytes 8 output_size @
            (if output_size > 0 then block bytes_to_copy output else [])))"

text \<open>
  One round of the \<^verbatim>\<open>while (1)\<close> of \<^verbatim>\<open>lambda_server_loop\<close>; the result is \<open>True\<close> when
  the round reaches the end of the body, so that the loop goes on, and \<open>False\<close> when it
  ends in \<^verbatim>\<open>break\<close>. The jump into the received code is a call to the environment: its
  answer carries the value the code returns, then in its bytes the 8 bytes the code leaves
  in \<^verbatim>\<open>output_size\<close> followed by what it leaves in the output region.
\<close>

definition lambda_server_round :: "config_t \<Rightarrow> lambda_memory_regions \<Rightarrow> world \<Rightarrow> bool result \<times> world" where
  "lambda_server_round c server_regions w =
     and_then (post_lambda_receive c w) (\<lambda>r w.
     if r \<noteq> 0 then (Returns False, log_event (Stderr ''Failed to post receive for metadata'') w)
     else
     and_then (wait_completion c w) (\<lambda>_ w.
     and_then (deref (buf c) (heap w) w) (\<lambda>b w.
     let meta = lambda_metadata_of_bytes b;
         client_info = qp_info_of_bytes (drop sizeof_lambda_metadata b) in
     if code_size meta = 0 \<or> unat (code_size meta) > LAMBDA_MAX_CODE_SIZE then
       (Returns False, log_event (Stderr ''Invalid metadata received'') w)
     else
     and_then (post_lambda_receive c w) (\<lambda>r w.
     if r \<noteq> 0 then (Returns False, log_event (Stderr ''Failed to post receive for function code'') w)
     else
     and_then (wait_completion c w) (\<lambda>_ w.
     and_then (deref (buf c) (heap w) w) (\<lambda>b w.
     and_then (memcpy (code_region server_regions) b (unat (code_size meta)) w) (\<lambda>_ w.
     and_then (post_lambda_receive c w) (\<lambda>r w.
     if r \<noteq> 0 then (Returns False, log_event (Stderr ''Failed to post receive for input data'') w)
     else
     and_then (wait_completion c w) (\<lambda>_ w.
     if entry_offset meta \<ge> code_size meta then
       (Returns False, log_event (Stderr ''Invalid entry offset'') w)
     else
     and_then (ask (log_event (Call_lambda meta) w)) (\<lambda>a w.
     let result = rc a;
         output_size = le_word (take 8 (bytes a));
         result_buf = build_result_buf result output_size (drop 8 (bytes a)) in
     and_then (post_lambda_write (Some c) (Some result_buf) (Some client_info) w) (\<lambda>_ w.
     and_then (wait_completion c w) (\<lambda>_ w.
     (Returns True, w)))))))))))))"

text \<open>
  \<^verbatim>\<open>lambda_server_loop\<close>: rounds until one ends in \<^verbatim>\<open>break\<close> (the loop returns), the
  process exits, or the environment has no further answer.
\<close>

function lambda_server_loop :: "config_t \<Rightarrow> lambda_memory_regions \<Rightarrow> world \<Rightarrow> unit result \<times> world" where
  "lambda_server_loop c server_regions w =
     (case lambda_server_round c server_regions w of
        (Returns continue, w') \<Rightarrow>
           if continue then lambda_server_loop c server_regions w' else (Returns (), w')
      | (Exits code, w') \<Rightarrow> (Exits code, w')
      | (Faults, w') \<Rightarrow> (Faults, w')
      | (Blocks, w') \<Rightarrow> (Blocks, w'))"
  by pat_completeness auto

text \<open>From \<open>w\<close> to \<open>w'\<close> answers of the environment were used up, none added.\<close>

definition consumes :: "world \<Rightarrow> world \<Rightarrow> bool" where
  "consumes w w' \<longleftrightarrow> length (env w') \<le> length (env w)"

text \<open>A jump into received code is in order when the entry offset lies strictly inside a
  code length that passed the size check.\<close>

fun call_ok :: "event \<Rightarrow> bool" where
  "call_ok (Call_lambda meta) =
     (entry_offset meta < code_size meta \<and> code_size meta \<noteq> 0 \<and>
      unat (code_size meta) \<le> LAMBDA_MAX_CODE_SIZE)"
| "call_ok e = True"

text \<open>The buffer as the first completion of a round leaves it, and the metadata the server
  reads from it.\<close>

definition received_buffer :: "config_t \<Rightarrow> world \<Rightarrow> answer \<Rightarrow> byte list" where
  "received_buffer c w a =
     (case buf c of
        Some b \<Rightarrow> take (length (heap w b)) (bytes a @ drop (length (bytes a)) (heap w b))
      | None \<Rightarrow> [])"

definition received_metadata :: "config_t \<Rightarrow> world \<Rightarrow> answer \<Rightarrow> lambda_metadata" where
  "received_metadata c w a = lambda_metadata_of_bytes (received_buffer c w a)"

text \<open>What a trace shows of requests being served: the jumps into received code and the
  work requests sent (the result written back to the client).\<close>

fun is_served :: "event \<Rightarrow> bool" where
  "is_served (Call_lambda meta) = True"
| "is_served (Ibv_post_send q wr p) = True"
| "is_served e = False"

definition served :: "event list \<Rightarrow> event list" where
  "served es = filter is_served es"

definition unserved :: "world \<Rightarrow> world \<Rightarrow> bool" where
  "unserved w w' \<longleftrightarrow> served (trace w') = served (trace w)"

text \<open>A round that served nothing and does not let the loop go on.\<close>

definition rejected :: "world \<Rightarrow> bool result \<times> world \<Rightarrow> bool" where
  "rejected w m \<longleftrightarrow> unserved w (snd m) \<and> fst m \<noteq> Returns True"

section \<open>Concrete states used to run the model\<close>

definition world_zero :: world where
  "world_zero = \<lparr>live = {}, nxt = 1, open_fds = {}, heap = (\<lambda>_. []), qp_num_of = (\<lambda>_. 0),
     lkey_of = (\<lambda>_. 0), rkey_of = (\<lambda>_. 0), qp_state = (\<lambda>_. IBV_QPS_RESET), trace = [], env = []\<rparr>"

text \<open>A fully initialised context with its socket, and the world that holds its resources.\<close>

definition config_full :: config_t where
  "config_full = \<lparr>context = Some 1, pd = Some 2, cq = Some 3, qp = Some 4, mr = Some 5, buf = Some 6,
     gid = 0, sock_fd = 7\<rparr>"

definition world_full :: world where
  "world_full = world_zero\<lparr>live := {1, 2, 3, 4, 5, 6}, nxt := 7, open_fds := {7}\<rparr>"

text \<open>A context of which only the first two fields were ever populated.\<close>

definition config_two :: config_t where
  "config_two = config_zero\<lparr>context := Some 1, pd := Some 2\<rparr>"

definition world_two :: world where
  "world_two = world_zero\<lparr>live := {1, 2}, nxt := 3\<rparr>"

text \<open>A connected context: the buffer is allocated, and the environment accepts one post.\<close>

definition world_conn :: world where
  "world_conn = world_full\<lparr>heap := (\<lambda>_. replicate 4096 0), env := [Ans 0 [] 0]\<rparr>"

definition peer_info :: qp_info_t where
  "peer_info = \<lparr>qp_num = 9, qi_gid = 0, addr = 0xFFFFFFFFFFFFFFF8, rkey = 3\<rparr>"


text \<open>
  A lambda server: the context of \<open>config_full\<close> with a code region of
  \<^verbatim>\<open>LAMBDA_MAX_CODE_SIZE\<close> bytes (handle 8), and two requests on their way. The metadata
  of the first request is all zeros, so its \<^verbatim>\<open>code_size\<close> is 0; the second request is
  well-formed (16 bytes of code, entry offset 0).
\<close>

definition server_regions_full :: lambda_memory_regions where
  "server_regions_full = \<lparr>code_region = Some 8, input_region = Some 6, output_region = Some (6, 4096),
     code_mr = Some 9, input_mr = Some 5, output_mr = Some 5\<rparr>"

definition metadata_bytes :: "64 word \<Rightarrow> 64 word \<Rightarrow> 64 word \<Rightarrow> byte list" where
  "metadata_bytes csize isize entry =
     replicate 128 0 @ le_bytes 8 csize @ le_bytes 8 isize @ le_bytes 8 entry @ replicate 40 0"

definition world_server :: world where
  "world_server = world_full\<lparr>live := {1, 2, 3, 4, 5, 6, 8, 9}, nxt := 10,
     heap := (\<lambda>h. if h = 8 then replicate LAMBDA_MAX_CODE_SIZE 0 else replicate 4096 0)\<rparr>"

definition world_two_requests :: world where
  "world_two_requests = world_server\<lparr>env :=
     [Ans 0 [] 0, Ans 0 (metadata_bytes 0 0 0) 0,
      Ans 0 [] 0, Ans 0 (metadata_bytes 16 4 0) 0]\<rparr>"

text \<open>A request whose entry offset equals its code length.\<close>

definition world_bad_entry :: world where
  "world_bad_entry = world_server\<lparr>env :=
     [Ans 0 [] 0, Ans 0 (metadata_bytes 16 4 16) 0,
      Ans 0 [] 0, Ans 0 (replicate 16 0x90) 0,
      Ans 0 [] 0, Ans 0 [97, 98, 99, 0] 0,
      Ans 0 [65, 66, 67, 0] 0]\<rparr>"

section \<open>Teardown\<close>

text \<open>
  One teardown of a struct that owns its resources, fully or partly initialised, is safe:
  it skips the absent fields, releases every handle the struct refers to, closes the
  socket, and returns. Of the fields only \<^verbatim>\<open>qp\<close> is reset.
\<close>

lemma cleanup_resources_once:
  assumes "owned c w"
  shows "\<exists>w'. cleanup_resources (Some c) w = (Returns (Some (c\<lparr>qp := None\<rparr>)), w') \<and>
           live w' = live w - handles_of c \<and> sock_fd c \<notin> open_fds w' - {0} \<and>
           \<not> holds_live (c\<lparr>qp := None\<rparr>) w'"
  using assms
  by (cases "context c"; cases "pd c"; cases "cq c"; cases "qp c"; cases "mr c"; cases "buf c")
    (auto simp: owned_def cleanup_resources_def cleanup_qp_def release_def sys_close_def log_event_def
      handles_of_def holds_live_def)

text \<open>
  C1. Teardown is claimed to be idempotent. \<^verbatim>\<open>cleanup_resources\<close> clears only the queue
  pair field (through \<^verbatim>\<open>cleanup_qp\<close>); the memory region, buffer, completion queue,
  protection domain and device context fields keep their dangling handles. On a fully
  initialised context the first teardown releases everything, and the second one hands the
  already released memory region to \<^verbatim>\<open>ibv_dereg_mr\<close>: undefined behaviour. On a context
  with only the device context and the protection domain, the second teardown hands the
  released protection domain to \<^verbatim>\<open>ibv_dealloc_pd\<close>.
\<close>

theorem cleanup_resources_twice_faults:
  "(case cleanup_resources (Some config_full) world_full of
      (Returns c1, w1) \<Rightarrow>
         c1 = Some (config_full\<lparr>qp := None\<rparr>) \<and> live w1 = {} \<and> open_fds w1 = {} \<and>
         (case cleanup_resources c1 w1 of
            (r2, w2) \<Rightarrow> r2 = Faults \<and> last (trace w2) = Ibv_dereg_mr 5)
    | _ \<Rightarrow> False) \<and>
   (case cleanup_resources (Some config_two) world_two of
      (Returns c1, w1) \<Rightarrow>
         c1 = Some config_two \<and> live w1 = {} \<and>
         (case cleanup_resources c1 w1 of
            (r2, w2) \<Rightarrow> r2 = Faults \<and> last (trace w2) = Ibv_dealloc_pd 2)
    | _ \<Rightarrow> False)"
  by (simp add: cleanup_resources_def cleanup_qp_def release_def sys_close_def log_event_def
      config_full_def config_two_def config_zero_def world_full_def world_two_def world_zero_def
      insert_Diff_if)

section \<open>Initialisation\<close>

text \<open>Helper facts: what \<^verbatim>\<open>init_resources\<close> does when a given step is the first to fail.\<close>

lemmas init_defs = fails_cleanly_def init_resources_def cleanup_and_return_def
  cleanup_resources_def cleanup_qp_def release_def acquire_def ask_def sys_close_def log_event_def
  config_zero_def holds_live_def handles_of_def wf_world_def

lemma init_resources_fails_device_list:
  assumes "env w = a1 # r"
    and "rc a1 = 0"
    and "wf_world w"
  shows "fails_cleanly RDMA_ERR_DEVICE mode w"
  using assms by (auto simp: init_defs Let_def)

lemma init_resources_fails_first_device:
  assumes "env w = a1 # a2 # r"
    and "rc a1 \<noteq> 0" "rc a2 = 0"
    and "wf_world w"
  shows "fails_cleanly RDMA_ERR_DEVICE mode w"
  using assms by (auto simp: init_defs Let_def)

lemma init_resources_fails_open_device:
  assumes "env w = a1 # a2 # a3 # r"
    and "rc a1 \<noteq> 0" "rc a2 \<noteq> 0" "rc a3 = 0"
    and "wf_world w"
  shows "fails_cleanly RDMA_ERR_DEVICE mode w"
  using assms by (auto simp: init_defs Let_def)

lemma init_resources_fails_alloc_pd:
  assumes "env w = a1 # a2 # a3 # a4 # r"
    and "rc a1 \<noteq> 0" "rc a2 \<noteq> 0" "rc a3 \<noteq> 0" "rc a4 = 0"
    and "wf_world w"
  shows "fails_cleanly RDMA_ERR_RESOURCE mode w"
  using assms by (auto simp: init_defs Let_def)

lemma init_resources_fails_create_cq:
  assumes "env w = a1 # a2 # a3 # a4 # a5 # r"
    and "rc a1 \<noteq> 0" "rc a2 \<noteq> 0" "rc a3 \<noteq> 0" "rc a4 \<noteq> 0" "rc a5 = 0"
    and "wf_world w"
  shows "fails_cleanly RDMA_ERR_RESOURCE mode w"
  using assms by (auto simp: init_defs Let_def)

lemma init_resources_fails_create_qp:
  assumes "env w = a1 # a2 # a3 # a4 # a5 # a6 # r"
    and "rc a1 \<noteq> 0" "rc a2 \<noteq> 0" "rc a3 \<noteq> 0" "rc a4 \<noteq> 0" "rc a5 \<noteq> 0" "rc a6 = 0"
    and "wf_world w"
  shows "fails_cleanly RDMA_ERR_RESOURCE mode w"
  using assms by (auto simp: init_defs Let_def)

lemma init_resources_fails_malloc_buf:
  assumes "env w = a1 # a2 # a3 # a4 # a5 # a6 # a7 # r"
    and "rc a1 \<noteq> 0" "rc a2 \<noteq> 0" "rc a3 \<noteq> 0" "rc a4 \<noteq> 0" "rc a5 \<noteq> 0" "rc a6 \<noteq> 0" "rc a7 = 0"
    and "wf_world w"
  shows "fails_cleanly RDMA_ERR_RESOURCE mode w"
  using assms by (auto simp: init_defs Let_def)

lemma init_resources_fails_reg_mr:
  assumes "env w = a1 # a2 # a3 # a4 # a5 # a6 # a7 # a8 # r"
    and "rc a1 \<noteq> 0" "rc a2 \<noteq> 0" "rc a3 \<noteq> 0" "rc a4 \<noteq> 0" "rc a5 \<noteq> 0" "rc a6 \<noteq> 0" "rc a7 \<noteq> 0" "rc a8 = 0"
    and "wf_world w"
  shows "fails_cleanly RDMA_ERR_RESOURCE mode w"
  using assms by (auto simp: init_defs Let_def)

lemma init_resources_fails_query_gid:
  assumes "env w = a1 # a2 # a3 # a4 # a5 # a6 # a7 # a8 # a9 # r"
    and "rc a1 \<noteq> 0" "rc a2 \<noteq> 0" "rc a3 \<noteq> 0" "rc a4 \<noteq> 0" "rc a5 \<noteq> 0" "rc a6 \<noteq> 0" "rc a7 \<noteq> 0" "rc a8 \<noteq> 0" "rc a9 \<noteq> 0"
    and "wf_world w"
  shows "fails_cleanly RDMA_ERR_DEVICE mode w"
  using assms by (auto simp: init_defs Let_def)

lemma first_failure_Cons:
  "first_failure (s # ss) as =
     (case as of [] \<Rightarrow> None | a # as' \<Rightarrow> if step_fails s a then Some s else first_failure ss as')"
  by (cases as) simp_all

text \<open>
  C5. Whenever a step of \<^verbatim>\<open>init_resources\<close> fails, the call returns the error class of
  that step (device error for device discovery, the first device, the device context and
  the GID query; resource error for the protection domain, completion queue, queue pair,
  buffer and memory region), everything the earlier steps allocated has been released
  (the world has exactly the live handles it had before), and the struct the caller gets
  back refers to no live handle and no open descriptor. The struct starts zeroed, as in
  every caller.
\<close>

theorem init_resources_failure_cleans_up:
  assumes wf: "wf_world w"
    and ff: "first_failure init_steps (env w) = Some s"
  shows "fails_cleanly (spec_status_of_step s) mode w"
proof (cases s)
  case Device_list
  with ff obtain a1 r where "env w = a1 # r" "rc a1 = 0"
    by (auto simp: init_steps_def step_fails_def first_failure_Cons split: list.splits if_splits)
  then show ?thesis
    using wf Device_list by (simp add: init_resources_fails_device_list)
next
  case First_device
  with ff obtain a1 a2 r where "env w = a1 # a2 # r" "rc a1 \<noteq> 0" "rc a2 = 0"
    by (auto simp: init_steps_def step_fails_def first_failure_Cons split: list.splits if_splits)
  then show ?thesis
    using wf First_device by (simp add: init_resources_fails_first_device)
next
  case Open_device
  with ff obtain a1 a2 a3 r where "env w = a1 # a2 # a3 # r" "rc a1 \<noteq> 0" "rc a2 \<noteq> 0" "rc a3 = 0"
    by (auto simp: init_steps_def step_fails_def first_failure_Cons split: list.splits if_splits)
  then show ?thesis
    using wf Open_device by (simp add: init_resources_fails_open_device)
next
  case Alloc_pd
  with ff obtain a1 a2 a3 a4 r where "env w = a1 # a2 # a3 # a4 # r" "rc a1 \<noteq> 0" "rc a2 \<noteq> 0" "rc a3 \<noteq> 0" "rc a4 = 0"
    by (auto simp: init_steps_def step_fails_def first_failure_Cons split: list.splits if_splits)
  then show ?thesis
    using wf Alloc_pd by (simp add: init_resources_fails_alloc_pd)
next
  case Create_cq
  with ff obtain a1 a2 a3 a4 a5 r where "env w = a1 # a2 # a3 # a4 # a5 # r" "rc a1 \<noteq> 0" "rc a2 \<noteq> 0" "rc a3 \<noteq> 0" "rc a4 \<noteq> 0" "rc a5 = 0"
    by (auto simp: init_steps_def step_fails_def first_failure_Cons split: list.splits if_splits)
  then show ?thesis
    using wf Create_cq by (simp add: init_resources_fails_create_cq)
next
  case Create_qp
  with ff obtain a1 a2 a3 a4 a5 a6 r where "env w = a1 # a2 # a3 # a4 # a5 # a6 # r" "rc a1 \<noteq> 0" "rc a2 \<noteq> 0" "rc a3 \<noteq> 0" "rc a4 \<noteq> 0" "rc a5 \<noteq> 0" "rc a6 = 0"
    by (auto simp: init_steps_def step_fails_def first_failure_Cons split: list.splits if_splits)
  then show ?thesis
    using wf Create_qp by (simp add: init_resources_fails_create_qp)
next
  case Malloc_buf
  with ff obtain a1 a2 a3 a4 a5 a6 a7 r where "env w = a1 # a2 # a3 # a4 # a5 # a6 # a7 # r" "rc a1 \<noteq> 0" "rc a2 \<noteq> 0" "rc a3 \<noteq> 0" "rc a4 \<noteq> 0" "rc a5 \<noteq> 0" "rc a6 \<noteq> 0" "rc a7 = 0"
    by (auto simp: init_steps_def step_fails_def first_failure_Cons split: list.splits if_splits)
  then show ?thesis
    using wf Malloc_buf by (simp add: init_resources_fails_malloc_buf)
next
  case Reg_mr
  with ff obtain a1 a2 a3 a4 a5 a6 a7 a8 r where "env w = a1 # a2 # a3 # a4 # a5 # a6 # a7 # a8 # r" "rc a1 \<noteq> 0" "rc a2 \<noteq> 0" "rc a3 \<noteq> 0" "rc a4 \<noteq> 0" "rc a5 \<noteq> 0" "rc a6 \<noteq> 0" "rc a7 \<noteq> 0" "rc a8 = 0"
    by (auto simp: init_steps_def step_fails_def first_failure_Cons split: list.splits if_splits)
  then show ?thesis
    using wf Reg_mr by (simp add: init_resources_fails_reg_mr)
next
  case Query_gid
  with ff obtain a1 a2 a3 a4 a5 a6 a7 a8 a9 r where "env w = a1 # a2 # a3 # a4 # a5 # a6 # a7 # a8 # a9 # r" "rc a1 \<noteq> 0" "rc a2 \<noteq> 0" "rc a3 \<noteq> 0" "rc a4 \<noteq> 0" "rc a5 \<noteq> 0" "rc a6 \<noteq> 0" "rc a7 \<noteq> 0" "rc a8 \<noteq> 0" "rc a9 \<noteq> 0"
    by (auto simp: init_steps_def step_fails_def first_failure_Cons split: list.splits if_splits)
  then show ?thesis
    using wf Query_gid by (simp add: init_resources_fails_query_gid)
qed

text \<open>The protection domain is the first allocation to fail.\<close>

theorem init_resources_failure_cleans_up_witness:
  "wf_world (world_zero\<lparr>env := [Ans 1 [] 0, Ans 1 [] 0, Ans 1 [] 0, Ans 0 [] 0]\<rparr>) \<and>
   first_failure init_steps (env (world_zero\<lparr>env := [Ans 1 [] 0, Ans 1 [] 0, Ans 1 [] 0, Ans 0 [] 0]\<rparr>)) = Some Alloc_pd \<and>
   fails_cleanly RDMA_ERR_RESOURCE MODE_WRITE (world_zero\<lparr>env := [Ans 1 [] 0, Ans 1 [] 0, Ans 1 [] 0, Ans 0 [] 0]\<rparr>)"
  using init_resources_failure_cleans_up
    [of "world_zero\<lparr>env := [Ans 1 [] 0, Ans 1 [] 0, Ans 1 [] 0, Ans 0 [] 0]\<rparr>" Alloc_pd MODE_WRITE]
  by (simp add: wf_world_def world_zero_def init_steps_def step_fails_def)

section \<open>Operations\<close>

lemma and_then_ReturnsD:
  "and_then m f = (Returns r, w') \<Longrightarrow> \<exists>a w1. m = (Returns a, w1) \<and> f a w1 = (Returns r, w')"
  by (cases m; cases "fst m") auto

text \<open>
  C4 as the code has it. A \<^verbatim>\<open>post_operation\<close> with a length above \<^verbatim>\<open>MAX_BUFFER_SIZE\<close>
  returns at once: the world is the one before the call, so no work request was posted, no
  byte was copied into the buffer and nothing was written to stderr. The function is
  \<^verbatim>\<open>void\<close>: its caller gets no status.
\<close>

theorem post_operation_oversized_is_silent:
  "len > MAX_BUFFER_SIZE \<Longrightarrow> post_operation config op data remote_info len w = (Returns (), w)"
  by (simp add: post_operation_def split: option.splits)

theorem post_operation_oversized_is_silent_witness:
  "(4097::nat) > MAX_BUFFER_SIZE \<and>
   post_operation (Some config_full) OP_WRITE (Some (replicate 4097 1)) None 4097 world_full
     = (Returns (), world_full)"
  using post_operation_oversized_is_silent
    [of 4097 "Some config_full" OP_WRITE "Some (replicate 4097 1)" None world_full]
  by (simp add: MAX_BUFFER_SIZE_def)

text \<open>
  C4 as stated fails: a send of 4097 bytes is not reported as a resource error, or as
  anything else. The call returns normally and leaves the world, its trace included,
  untouched, although the environment would have accepted a post.
\<close>

theorem post_operation_oversized_not_reported:
  "post_operation (Some config_full) OP_SEND (Some (replicate 4097 0)) None 4097
     (world_full\<lparr>env := [Ans 0 [] 0]\<rparr>) = (Returns (), world_full\<lparr>env := [Ans 0 [] 0]\<rparr>)"
  by (simp add: post_operation_def MAX_BUFFER_SIZE_def)

section \<open>Read mode\<close>

text \<open>
  C9. \<^verbatim>\<open>rd_post_read\<close> gives the caller's \<^verbatim>\<open>remote_info\<close> back as it got it: every call
  that returns, for every offset and length (also a length the post rejects, and an
  offset that wraps the 64-bit address around), leaves each field, \<^verbatim>\<open>addr\<close> included, at
  its value before the call.
\<close>

theorem rd_post_read_preserves_remote_info:
  "rd_post_read config remote_offset len remote_info w = (Returns remote_info', w') \<Longrightarrow>
   remote_info' = remote_info"
  unfolding rd_post_read_def Let_def
  by (auto dest!: and_then_ReturnsD)

theorem rd_post_read_preserves_remote_info_witness:
  "rd_post_read (Some config_full) 16 8 peer_info world_conn =
     (Returns \<lparr>qp_num = 9, qi_gid = 0, addr = 0xFFFFFFFFFFFFFFF8, rkey = 3\<rparr>,
      world_conn\<lparr>trace := [Ibv_post_send 4
          \<lparr>sg_addr = Some 6, sg_length = 8, sg_lkey = 0, opcode = IBV_WR_RDMA_READ, imm_data = 0,
             remote_addr = 8, wr_rkey = 3\<rparr> (replicate 8 0)], env := []\<rparr>) \<and>
   \<lparr>qp_num = 9, qi_gid = 0, addr = 0xFFFFFFFFFFFFFFF8, rkey = 3\<rparr> = peer_info"
proof -
  have run: "rd_post_read (Some config_full) 16 8 peer_info world_conn =
     (Returns \<lparr>qp_num = 9, qi_gid = 0, addr = 0xFFFFFFFFFFFFFFF8, rkey = 3\<rparr>,
      world_conn\<lparr>trace := [Ibv_post_send 4
          \<lparr>sg_addr = Some 6, sg_length = 8, sg_lkey = 0, opcode = IBV_WR_RDMA_READ, imm_data = 0,
             remote_addr = 8, wr_rkey = 3\<rparr> (replicate 8 0)], env := []\<rparr>)"
    by (simp add: rd_post_read_def post_operation_def deref_def ask_def log_event_def Let_def
        config_full_def world_conn_def world_full_def world_zero_def peer_info_def MAX_BUFFER_SIZE_def)
  from rd_post_read_preserves_remote_info [OF run] run show ?thesis
    by simp
qed

section \<open>Lambda mode: the posting wrappers\<close>

lemma post_operation_trace:
  assumes "post_operation (Some c) op data remote_info len w = (Returns (), w')"
    and "len \<le> MAX_BUFFER_SIZE"
  shows "\<exists>q wr p. trace w' = trace w @ [Ibv_post_send q wr p] \<and> sg_length wr = len \<and>
           opcode wr = (case op of OP_SEND \<Rightarrow> IBV_WR_SEND | OP_WRITE \<Rightarrow> IBV_WR_RDMA_WRITE_WITH_IMM
                        | OP_READ \<Rightarrow> IBV_WR_RDMA_READ)"
  using assms unfolding post_operation_def
  apply (simp add: Let_def)
  apply (auto dest!: and_then_ReturnsD simp: deref_def memcpy_def ask_def die_def log_event_def
      split: option.splits if_splits rdma_op_t.splits list.splits)
  done

text \<open>
  C10. Whatever the payload, \<^verbatim>\<open>post_lambda_send\<close> and \<^verbatim>\<open>post_lambda_write\<close> post with
  length \<^verbatim>\<open>MAX_BUFFER_SIZE\<close>: a call that returns has added exactly one work request of that
  length to the trace (a send, respectively a write-with-immediate), unless the struct
  pointer was \<^verbatim>\<open>NULL\<close>, where \<^verbatim>\<open>post_operation\<close> does nothing. Every call of the two, and
  of \<^verbatim>\<open>post_lambda_receive\<close>, that returns, returns 0.
\<close>

theorem post_lambda_full_buffer_and_zero:
  "(post_lambda_send config data w = (Returns r, w') \<longrightarrow>
      r = 0 \<and> (if config = None then w' = w
               else \<exists>q wr p. trace w' = trace w @ [Ibv_post_send q wr p] \<and>
                      sg_length wr = MAX_BUFFER_SIZE \<and> opcode wr = IBV_WR_SEND)) \<and>
   (post_lambda_write config2 data2 remote_info w2 = (Returns r2, w2') \<longrightarrow>
      r2 = 0 \<and> (if config2 = None then w2' = w2
                else \<exists>q wr p. trace w2' = trace w2 @ [Ibv_post_send q wr p] \<and>
                       sg_length wr = MAX_BUFFER_SIZE \<and> opcode wr = IBV_WR_RDMA_WRITE_WITH_IMM)) \<and>
   (post_lambda_receive config3 w3 = (Returns r3, w3') \<longrightarrow> r3 = 0)"
proof (intro conjI impI)
  assume "post_lambda_send config data w = (Returns r, w')"
  then have p: "post_operation config OP_SEND data None MAX_BUFFER_SIZE w = (Returns (), w')" and "r = 0"
    by (auto simp: post_lambda_send_def dest!: and_then_ReturnsD)
  then show "r = 0"
    by simp
  show "if config = None then w' = w
        else \<exists>q wr p. trace w' = trace w @ [Ibv_post_send q wr p] \<and>
               sg_length wr = MAX_BUFFER_SIZE \<and> opcode wr = IBV_WR_SEND"
  proof (cases config)
    case None
    with p show ?thesis by (simp add: post_operation_def)
  next
    case (Some c)
    with p post_operation_trace [of c OP_SEND data None MAX_BUFFER_SIZE w w'] show ?thesis by simp
  qed
next
  assume "post_lambda_write config2 data2 remote_info w2 = (Returns r2, w2')"
  then have p: "post_operation config2 OP_WRITE data2 remote_info MAX_BUFFER_SIZE w2 = (Returns (), w2')"
    and "r2 = 0"
    by (auto simp: post_lambda_write_def dest!: and_then_ReturnsD)
  then show "r2 = 0"
    by simp
  show "if config2 = None then w2' = w2
        else \<exists>q wr p. trace w2' = trace w2 @ [Ibv_post_send q wr p] \<and>
               sg_length wr = MAX_BUFFER_SIZE \<and> opcode wr = IBV_WR_RDMA_WRITE_WITH_IMM"
  proof (cases config2)
    case None
    with p show ?thesis by (simp add: post_operation_def)
  next
    case (Some c)
    with p post_operation_trace [of c OP_WRITE data2 remote_info MAX_BUFFER_SIZE w2 w2'] show ?thesis by simp
  qed
next
  assume "post_lambda_receive config3 w3 = (Returns r3, w3')"
  then show "r3 = 0"
    by (auto simp: post_lambda_receive_def dest!: and_then_ReturnsD)
qed

text \<open>A three-byte payload is posted as 4096 bytes.\<close>

theorem post_lambda_full_buffer_and_zero_witness:
  "post_lambda_send (Some config_full) (Some ([1, 2, 3] @ replicate 4093 0)) world_conn
     = (Returns 0, world_conn\<lparr>heap := (heap world_conn)(6 := [1, 2, 3] @ replicate 4093 0),
          trace := [Ibv_post_send 4 \<lparr>sg_addr = Some 6, sg_length = 4096, sg_lkey = 0,
             opcode = IBV_WR_SEND, imm_data = 0, remote_addr = 0, wr_rkey = 0\<rparr>
             ([1, 2, 3] @ replicate 4093 0)], env := []\<rparr>) \<and>
   post_lambda_write (Some config_full) None (Some peer_info) world_conn
     = (Returns 0, world_conn\<lparr>
          trace := [Ibv_post_send 4 \<lparr>sg_addr = Some 6, sg_length = 4096, sg_lkey = 0,
             opcode = IBV_WR_RDMA_WRITE_WITH_IMM, imm_data = htonl 4096,
             remote_addr = 0xFFFFFFFFFFFFFFF8, wr_rkey = 3\<rparr> (replicate 4096 0)], env := []\<rparr>) \<and>
   post_lambda_receive config_full world_conn
     = (Returns 0, world_conn\<lparr>trace := [Ibv_post_recv 4 4096], env := []\<rparr>) \<and>
   (0 :: int) = 0 \<and> MAX_BUFFER_SIZE = 4096"
proof -
  have s: "post_lambda_send (Some config_full) (Some ([1, 2, 3] @ replicate 4093 0)) world_conn
     = (Returns 0, world_conn\<lparr>heap := (heap world_conn)(6 := [1, 2, 3] @ replicate 4093 0),
          trace := [Ibv_post_send 4 \<lparr>sg_addr = Some 6, sg_length = 4096, sg_lkey = 0,
             opcode = IBV_WR_SEND, imm_data = 0, remote_addr = 0, wr_rkey = 0\<rparr>
             ([1, 2, 3] @ replicate 4093 0)], env := []\<rparr>)"
    by (simp add: post_lambda_send_def post_operation_def memcpy_def deref_def ask_def log_event_def
        Let_def config_full_def world_conn_def world_full_def world_zero_def MAX_BUFFER_SIZE_def)
  have t: "post_lambda_write (Some config_full) None (Some peer_info) world_conn
     = (Returns 0, world_conn\<lparr>
          trace := [Ibv_post_send 4 \<lparr>sg_addr = Some 6, sg_length = 4096, sg_lkey = 0,
             opcode = IBV_WR_RDMA_WRITE_WITH_IMM, imm_data = htonl 4096,
             remote_addr = 0xFFFFFFFFFFFFFFF8, wr_rkey = 3\<rparr> (replicate 4096 0)], env := []\<rparr>)"
    by (simp add: post_lambda_write_def post_operation_def memcpy_def deref_def ask_def log_event_def
        Let_def config_full_def world_conn_def world_full_def world_zero_def MAX_BUFFER_SIZE_def
        peer_info_def)
  have u: "post_lambda_receive config_full world_conn
     = (Returns 0, world_conn\<lparr>trace := [Ibv_post_recv 4 4096], env := []\<rparr>)"
    by (simp add: post_lambda_receive_def post_receive_def deref_def ask_def log_event_def
        Let_def config_full_def world_conn_def world_full_def world_zero_def MAX_BUFFER_SIZE_def)
  from post_lambda_full_buffer_and_zero
    [of "Some config_full" "Some ([1, 2, 3] @ replicate 4093 0)" world_conn 0 _
        "Some config_full" None "Some peer_info" world_conn 0 _ config_full world_conn 0 _]
    s t u
  show ?thesis
    by (simp add: MAX_BUFFER_SIZE_def)
qed

section \<open>Write mode: the round trip of a message\<close>








section \<open>Handshake\<close>

text \<open>
  C8. With the two answers of the peer at hand, \<^verbatim>\<open>exchange_qp_info\<close> does exactly this: the
  client writes its record and then reads the peer's, the server reads and then writes;
  both transfer \<^verbatim>\<open>sizeof(struct qp_info_t)\<close> bytes; a first transfer of any other length
  closes the socket and exits with code 1 before the second is attempted, and so does a
  second transfer of any other length; otherwise the peer's record is returned.
\<close>

theorem exchange_qp_info_protocol:
  assumes "env w = a1 # a2 # rest"
  shows "exchange_qp_info c server_name local_info w =
     (let fd = sock_fd c; n = sizeof_qp_info_t;
          first = (case server_name of Some _ \<Rightarrow> Sys_write fd n | None \<Rightarrow> Sys_read fd n);
          second = (case server_name of Some _ \<Rightarrow> Sys_read fd n | None \<Rightarrow> Sys_write fd n);
          first_message = (case server_name of Some _ \<Rightarrow> ''Failed to send local QP info''
                           | None \<Rightarrow> ''Failed to receive remote QP info'');
          second_message = (case server_name of Some _ \<Rightarrow> ''Failed to receive remote QP info''
                            | None \<Rightarrow> ''Failed to send local QP info'');
          received = (case server_name of Some _ \<Rightarrow> bytes a2 | None \<Rightarrow> bytes a1)
      in if rc a1 \<noteq> int n then
           (Exits 1, w\<lparr>open_fds := open_fds w - {fd},
                       trace := trace w @ [first, Close fd, Stderr first_message], env := a2 # rest\<rparr>)
         else if rc a2 \<noteq> int n then
           (Exits 1, w\<lparr>open_fds := open_fds w - {fd},
                       trace := trace w @ [first, second, Close fd, Stderr second_message], env := rest\<rparr>)
         else (Returns (qp_info_of_bytes received), w\<lparr>trace := trace w @ [first, second], env := rest\<rparr>))"
  using assms
  by (cases server_name)
    (simp_all add: exchange_qp_info_def sys_write_def sys_read_def sys_close_def die_def ask_def
      log_event_def Let_def)

text \<open>A client whose read is cut short after 12 bytes.\<close>

theorem exchange_qp_info_protocol_witness:
  "env (world_full\<lparr>env := [Ans 40 [] 0, Ans 12 (replicate 12 1) 0]\<rparr>) = [Ans 40 [] 0, Ans 12 (replicate 12 1) 0] \<and>
   exchange_qp_info config_full (Some ''server'') peer_info
       (world_full\<lparr>env := [Ans 40 [] 0, Ans 12 (replicate 12 1) 0]\<rparr>) =
     (Exits 1, world_full\<lparr>open_fds := {},
        trace := [Sys_write 7 40, Sys_read 7 40, Close 7, Stderr ''Failed to receive remote QP info''],
        env := []\<rparr>)"
  using exchange_qp_info_protocol
    [of "world_full\<lparr>env := [Ans 40 [] 0, Ans 12 (replicate 12 1) 0]\<rparr>" "Ans 40 [] 0"
        "Ans 12 (replicate 12 1) 0" "[]" config_full "Some ''server''" peer_info]
  by (simp add: sizeof_qp_info_t_def config_full_def world_full_def world_zero_def)

section \<open>Connection setup\<close>

lemma qp_history_append: "qp_history q (xs @ ys) = qp_history q xs @ qp_history q ys"
  by (induction q xs rule: qp_history.induct) simp_all


lemma quiet_open_fds [simp]: "quiet q w (w1\<lparr>open_fds := X\<rparr>) = quiet q w w1"
  by (simp add: quiet_def)

lemma quiet_stderr [simp]: "quiet q w (log_event (Stderr s) w1) = quiet q w w1"
  by (simp add: quiet_def log_event_def qp_history_append)









lemma quiet_log_io [simp]:
  "quiet q w (log_event (Sys_write fd n) w1) = quiet q w w1"
  "quiet q w (log_event (Sys_read fd n) w1) = quiet q w w1"
  by (simp_all add: quiet_def log_event_def qp_history_append)




lemma and_then_cases:
  assumes "and_then m f = (r, w')"
  obtains (Continue) a w1 where "m = (Returns a, w1)" and "f a w1 = (r, w')"
  | (Stop) "outcome_of r = outcome_of (fst m)" and "outcome_of r \<noteq> Returned" and "w' = snd m"
  using assms by (cases m; cases "fst m") auto















lemma and_then_stop:
  "outcome_of r1 \<noteq> Returned \<Longrightarrow>
   \<exists>r. and_then (r1, w1) f = (r, w1) \<and> outcome_of r = outcome_of r1"
  by (cases r1) auto



section \<open>Lambda mode: the server loop\<close>

text \<open>Calls only use up answers of the environment; this is what makes the loop end.\<close>

lemma consumes_simps [simp]:
  "consumes w (log_event e w1) = consumes w w1"
  "consumes w (w1\<lparr>heap := h\<rparr>) = consumes w w1"
  "consumes w (w1\<lparr>trace := t\<rparr>) = consumes w w1"
  by (simp_all add: consumes_def log_event_def)

lemma consumes_and_then:
  assumes "consumes w (snd m)" and "\<And>a w1. consumes w w1 \<Longrightarrow> consumes w (snd (f a w1))"
  shows "consumes w (snd (and_then m f))"
proof (cases m)
  case (Pair r w1)
  with assms show ?thesis
    by (cases r) auto
qed

lemma consumes_ask: "consumes w w1 \<Longrightarrow> consumes w (snd (ask w1))"
  by (auto simp: ask_def consumes_def split: list.splits)

lemma consumes_die: "consumes w w1 \<Longrightarrow> consumes w (snd (die msg w1))"
  by (simp add: die_def)

lemma consumes_deref: "consumes w w1 \<Longrightarrow> consumes w (snd (deref p f w1))"
  by (simp add: deref_def split: option.splits)

lemma consumes_memcpy: "consumes w w1 \<Longrightarrow> consumes w (snd (memcpy dst src n w1))"
  by (simp add: memcpy_def split: option.splits)

lemmas consumes_intros = consumes_and_then consumes_ask consumes_die consumes_deref consumes_memcpy

lemma consumes_post_receive: "consumes w w1 \<Longrightarrow> consumes w (snd (post_receive c w1))"
  unfolding post_receive_def by (auto intro!: consumes_intros)

lemma consumes_post_lambda_receive: "consumes w w1 \<Longrightarrow> consumes w (snd (post_lambda_receive c w1))"
  unfolding post_lambda_receive_def by (auto intro!: consumes_intros consumes_post_receive)

lemma consumes_wait_completion: "consumes w w1 \<Longrightarrow> consumes w (snd (wait_completion c w1))"
  unfolding wait_completion_def poll_one_def deliver_def
  by (auto intro!: consumes_intros split: option.splits)

lemma consumes_post_operation:
  "consumes w w1 \<Longrightarrow> consumes w (snd (post_operation config op data remote_info len w1))"
  unfolding post_operation_def Let_def
  by (auto intro!: consumes_intros split: option.splits rdma_op_t.splits)

lemma consumes_post_lambda_write:
  "consumes w w1 \<Longrightarrow> consumes w (snd (post_lambda_write config data remote_info w1))"
  unfolding post_lambda_write_def by (auto intro!: consumes_intros consumes_post_operation)

lemma post_lambda_receive_uses_answer:
  "post_lambda_receive c w = (Returns r, w') \<Longrightarrow> length (env w') < length (env w)"
  by (auto simp: post_lambda_receive_def post_receive_def deref_def ask_def die_def log_event_def
      dest!: and_then_ReturnsD split: option.splits if_splits list.splits)

lemma and_then_uses_answer:
  assumes "and_then m f = (Returns b, w')"
    and "\<And>a w1. m = (Returns a, w1) \<Longrightarrow> length (env w1) < length (env w)"
    and "\<And>a w1. consumes w1 (snd (f a w1))"
  shows "length (env w') < length (env w)"
proof -
  from assms(1) obtain a w1 where m: "m = (Returns a, w1)" and f: "f a w1 = (Returns b, w')"
    by (auto dest: and_then_ReturnsD)
  from assms(3) [of w1 a] f have "length (env w') \<le> length (env w1)"
    by (simp add: consumes_def)
  with assms(2) [OF m] show ?thesis
    by simp
qed

lemma consumes_refl: "consumes w w"
  by (simp add: consumes_def)

lemma lambda_server_round_uses_answer:
  assumes "lambda_server_round c server_regions w = (Returns b, w')"
  shows "length (env w') < length (env w)"
  apply (rule and_then_uses_answer [OF assms [unfolded lambda_server_round_def]])
   apply (erule post_lambda_receive_uses_answer)
  apply (simp only: Let_def)
  apply (auto intro!: consumes_intros consumes_post_lambda_receive consumes_wait_completion
      consumes_post_lambda_write simp: consumes_refl)
  done

termination lambda_server_loop
  by (relation "measure (\<lambda>(c, server_regions, w). length (env w))")
    (auto dest: lambda_server_round_uses_answer [OF sym])

declare lambda_server_loop.simps [simp del]
text \<open>Every jump into received code that the loop makes is in order.\<close>

lemma calls_ok_log [simp]:
  "list_all call_ok (trace (log_event e w)) = (list_all call_ok (trace w) \<and> call_ok e)"
  by (simp add: log_event_def)

lemma calls_ok_and_then:
  assumes "list_all call_ok (trace (snd m))"
    and "\<And>a w1. list_all call_ok (trace w1) \<Longrightarrow> list_all call_ok (trace (snd (f a w1)))"
  shows "list_all call_ok (trace (snd (and_then m f)))"
proof (cases m)
  case (Pair r w1)
  with assms show ?thesis
    by (cases r) auto
qed

lemma calls_ok_ask: "list_all call_ok (trace w) \<Longrightarrow> list_all call_ok (trace (snd (ask w)))"
  by (auto simp: ask_def split: list.splits)

lemma calls_ok_die: "list_all call_ok (trace w) \<Longrightarrow> list_all call_ok (trace (snd (die msg w)))"
  by (simp add: die_def)

lemma calls_ok_deref: "list_all call_ok (trace w) \<Longrightarrow> list_all call_ok (trace (snd (deref p f w)))"
  by (simp add: deref_def split: option.splits)

lemma calls_ok_memcpy:
  "list_all call_ok (trace w) \<Longrightarrow> list_all call_ok (trace (snd (memcpy dst src n w)))"
  by (simp add: memcpy_def split: option.splits)

lemmas calls_ok_intros = calls_ok_and_then calls_ok_ask calls_ok_die calls_ok_deref calls_ok_memcpy

lemma calls_ok_post_lambda_receive:
  "list_all call_ok (trace w) \<Longrightarrow> list_all call_ok (trace (snd (post_lambda_receive c w)))"
  unfolding post_lambda_receive_def post_receive_def by (auto intro!: calls_ok_intros)

lemma calls_ok_wait_completion:
  "list_all call_ok (trace w) \<Longrightarrow> list_all call_ok (trace (snd (wait_completion c w)))"
  unfolding wait_completion_def poll_one_def deliver_def
  by (auto intro!: calls_ok_intros split: option.splits)

lemma calls_ok_post_lambda_write:
  "list_all call_ok (trace w) \<Longrightarrow>
   list_all call_ok (trace (snd (post_lambda_write config data remote_info w)))"
  unfolding post_lambda_write_def post_operation_def Let_def
  by (auto intro!: calls_ok_intros split: option.splits rdma_op_t.splits)

lemma calls_ok_round:
  "list_all call_ok (trace w) \<Longrightarrow>
   list_all call_ok (trace (snd (lambda_server_round c server_regions w)))"
  unfolding lambda_server_round_def Let_def
  by (auto intro!: calls_ok_intros calls_ok_post_lambda_receive calls_ok_wait_completion
      calls_ok_post_lambda_write simp: not_le)

lemma calls_ok_loop:
  "list_all call_ok (trace w) \<Longrightarrow>
   list_all call_ok (trace (snd (lambda_server_loop c server_regions w)))"
proof (induction c server_regions w rule: lambda_server_loop.induct)
  case (1 c server_regions w)
  obtain r w' where round: "lambda_server_round c server_regions w = (r, w')"
    by (cases "lambda_server_round c server_regions w")
  with calls_ok_round [OF "1.prems", of c server_regions] have ok: "list_all call_ok (trace w')"
    by simp
  show ?case
    using round ok "1.IH"
    by (subst lambda_server_loop.simps) (auto split: result.splits)
qed

text \<open>A round that does not get to the size and offset checks, or fails them, serves nothing.\<close>

lemma unserved_log [simp]: "\<not> is_served e \<Longrightarrow> unserved w (log_event e w1) = unserved w w1"
  by (simp add: unserved_def served_def log_event_def)

lemma unserved_fields [simp]:
  "unserved w (w1\<lparr>heap := h\<rparr>) = unserved w w1"
  "unserved w (w1\<lparr>env := as\<rparr>) = unserved w w1"
  by (simp_all add: unserved_def)

lemma rejected_and_then:
  assumes "unserved w (snd m)" and "\<And>a w1. unserved w w1 \<Longrightarrow> rejected w (f a w1)"
  shows "rejected w (and_then m f)"
proof (cases m)
  case (Pair r w1)
  with assms show ?thesis
    by (cases r) (auto simp: rejected_def)
qed

lemma unserved_and_then:
  assumes "unserved w (snd m)" and "\<And>a w1. unserved w w1 \<Longrightarrow> unserved w (snd (f a w1))"
  shows "unserved w (snd (and_then m f))"
proof (cases m)
  case (Pair r w1)
  with assms show ?thesis
    by (cases r) auto
qed

lemma unserved_ask: "unserved w w1 \<Longrightarrow> unserved w (snd (ask w1))"
  by (auto simp: ask_def split: list.splits)

lemma unserved_die: "unserved w w1 \<Longrightarrow> unserved w (snd (die msg w1))"
  by (simp add: die_def)

lemma unserved_deref: "unserved w w1 \<Longrightarrow> unserved w (snd (deref p f w1))"
  by (simp add: deref_def split: option.splits)

lemma unserved_memcpy: "unserved w w1 \<Longrightarrow> unserved w (snd (memcpy dst src n w1))"
  by (simp add: memcpy_def split: option.splits)

lemmas unserved_intros = unserved_and_then unserved_ask unserved_die unserved_deref unserved_memcpy

lemma unserved_post_lambda_receive: "unserved w w1 \<Longrightarrow> unserved w (snd (post_lambda_receive c w1))"
  unfolding post_lambda_receive_def post_receive_def by (auto intro!: unserved_intros)

lemma unserved_wait_completion: "unserved w w1 \<Longrightarrow> unserved w (snd (wait_completion c w1))"
  unfolding wait_completion_def poll_one_def deliver_def
  by (auto intro!: unserved_intros split: option.splits)
text \<open>The first steps of a round when the environment accepts the receive and delivers a
  successful completion: the metadata is in the buffer.\<close>

lemma round_first_steps:
  assumes "usable c w" and "env w = a1 # a2 # rest" and "rc a1 = 0" and "rc a2 = 0"
  defines "w2 \<equiv> w\<lparr>heap := (heap w)(the (buf c) := received_buffer c w a2),
      trace := trace w @ [Ibv_post_recv (the (qp c)) MAX_BUFFER_SIZE, Ibv_poll_cq (the (cq c))],
      env := rest\<rparr>"
  shows "post_lambda_receive c w =
      (Returns 0, log_event (Ibv_post_recv (the (qp c)) MAX_BUFFER_SIZE) (w\<lparr>env := a2 # rest\<rparr>))"
    and "wait_completion c (log_event (Ibv_post_recv (the (qp c)) MAX_BUFFER_SIZE) (w\<lparr>env := a2 # rest\<rparr>))
      = (Returns (), w2)"
    and "deref (buf c) (heap w2) w2 = (Returns (received_buffer c w a2), w2)"
    and "deref (buf c) ((heap w)(the (buf c) := received_buffer c w a2)) w2
      = (Returns (received_buffer c w a2), w2)"
  using assms
  by (auto simp: post_lambda_receive_def post_receive_def wait_completion_def poll_one_def
      deliver_def received_buffer_def usable_def deref_def ask_def log_event_def
      split: option.splits)

lemma round_rejects_invalid_size:
  assumes "usable c w" and "env w = a1 # a2 # rest" and "rc a1 = 0" and "rc a2 = 0"
    and "code_size (received_metadata c w a2) = 0 \<or>
         unat (code_size (received_metadata c w a2)) > LAMBDA_MAX_CODE_SIZE"
  shows "lambda_server_round c server_regions w =
     (Returns False,
      w\<lparr>heap := (heap w)(the (buf c) := received_buffer c w a2),
        trace := trace w @ [Ibv_post_recv (the (qp c)) MAX_BUFFER_SIZE, Ibv_poll_cq (the (cq c)),
          Stderr ''Invalid metadata received''],
        env := rest\<rparr>)"
proof -
  have "lambda_server_round c server_regions w =
     (Returns False, log_event (Stderr ''Invalid metadata received'')
        (w\<lparr>heap := (heap w)(the (buf c) := received_buffer c w a2),
           trace := trace w @ [Ibv_post_recv (the (qp c)) MAX_BUFFER_SIZE, Ibv_poll_cq (the (cq c))],
           env := rest\<rparr>))"
    using assms(5)
    by (auto simp: lambda_server_round_def round_first_steps [OF assms(1-4)] Let_def
        received_metadata_def)
  then show ?thesis
    by (simp add: log_event_def)
qed

lemma round_rejects_bad_entry:
  assumes "usable c w" and "env w = a1 # a2 # rest" and "rc a1 = 0" and "rc a2 = 0"
    and "entry_offset (received_metadata c w a2) \<ge> code_size (received_metadata c w a2)"
  shows "rejected w (lambda_server_round c server_regions w)"
proof -
  let ?w2 = "w\<lparr>heap := (heap w)(the (buf c) := received_buffer c w a2),
      trace := trace w @ [Ibv_post_recv (the (qp c)) MAX_BUFFER_SIZE, Ibv_poll_cq (the (cq c))],
      env := rest\<rparr>"
  have u: "unserved w ?w2"
    by (simp add: unserved_def served_def)
  have stop: "rejected w (Returns False, log_event (Stderr s) w1)" if "unserved w w1" for s w1
    using that by (simp add: rejected_def)
  show ?thesis
    unfolding lambda_server_round_def round_first_steps [OF assms(1-4)] and_then.simps Let_def
    using assms(5) u
    by (auto simp: received_metadata_def [symmetric] stop
        intro!: rejected_and_then unserved_post_lambda_receive unserved_wait_completion
          unserved_deref unserved_memcpy stop)
qed
lemma loop_after_rejected_round:
  assumes "rejected w (lambda_server_round c server_regions w)"
  shows "snd (lambda_server_loop c server_regions w) = snd (lambda_server_round c server_regions w)"
    and "served (trace (snd (lambda_server_loop c server_regions w))) = served (trace w)"
proof -
  obtain r w' where round: "lambda_server_round c server_regions w = (r, w')"
    by (cases "lambda_server_round c server_regions w")
  with assms have u: "served (trace w') = served (trace w)" and nt: "r \<noteq> Returns True"
    by (simp_all add: rejected_def unserved_def)
  have "snd (lambda_server_loop c server_regions w) = w'"
  proof (cases r)
    case (Returns continue)
    with nt have "\<not> continue"
      by simp
    with Returns round show ?thesis
      by (subst lambda_server_loop.simps) simp
  qed (use round in \<open>subst lambda_server_loop.simps, simp\<close>)+
  with round u show "snd (lambda_server_loop c server_regions w) = snd (lambda_server_round c server_regions w)"
    and "served (trace (snd (lambda_server_loop c server_regions w))) = served (trace w)"
    by simp_all
qed

lemma le_bytes_8:
  "le_bytes 8 x = [ucast x, ucast (drop_bit 8 x), ucast (drop_bit 16 x), ucast (drop_bit 24 x),
     ucast (drop_bit 32 x), ucast (drop_bit 40 x), ucast (drop_bit 48 x), ucast (drop_bit 56 x)]"
  by (simp add: eval_nat_numeral drop_bit_drop_bit)

lemma metadata_bytes_received:
  "lambda_metadata_of_bytes (take 4096 (metadata_bytes csize isize entry @ drop 192 (replicate 4096 0)))
     = \<lparr>function_name = replicate 128 0, code_size = le_word (le_bytes 8 csize),
        input_size = le_word (le_bytes 8 isize), entry_offset = le_word (le_bytes 8 entry)\<rparr>"
  by (simp add: lambda_metadata_of_bytes_def metadata_bytes_def le_bytes_8)

lemma received_metadata_server:
  "received_metadata config_full (world_server\<lparr>env := as\<rparr>) (Ans 0 (metadata_bytes csize isize entry) 0)
     = \<lparr>function_name = replicate 128 0, code_size = le_word (le_bytes 8 csize),
        input_size = le_word (le_bytes 8 isize), entry_offset = le_word (le_bytes 8 entry)\<rparr>"
proof -
  have "length (metadata_bytes csize isize entry) = 192"
    by (simp add: metadata_bytes_def le_bytes_8)
  then show ?thesis
    using metadata_bytes_received [of csize isize entry]
    by (simp add: received_metadata_def received_buffer_def config_full_def world_server_def
        world_full_def world_zero_def)
qed

lemma le_word_le_bytes_small:
  "le_word (le_bytes 8 (0 :: 64 word)) = (0 :: 64 word)"
  "le_word (le_bytes 8 (16 :: 64 word)) = (16 :: 64 word)"
  by (simp_all add: le_bytes_8)

lemma usable_server: "usable config_full (world_server\<lparr>env := as\<rparr>)"
  by (simp add: usable_def config_full_def world_server_def world_full_def world_zero_def
      MAX_BUFFER_SIZE_def)

text \<open>
  C2 as the code has it. When the metadata of a request has a \<^verbatim>\<open>code_size\<close> of zero or
  above \<^verbatim>\<open>LAMBDA_MAX_CODE_SIZE\<close>, the server logs the error and leaves the loop with
  \<^verbatim>\<open>break\<close>: \<^verbatim>\<open>lambda_server_loop\<close> returns. Up to there it has posted one receive and
  taken one completion; only the registered buffer has changed, so no code was copied,
  and nothing was executed. What the environment still holds, a next request for
  instance, is never looked at.
\<close>

theorem lambda_invalid_code_size_ends_loop:
  assumes "usable c w" and "env w = a1 # a2 # rest" and "rc a1 = 0" and "rc a2 = 0"
    and "code_size (received_metadata c w a2) = 0 \<or>
         unat (code_size (received_metadata c w a2)) > LAMBDA_MAX_CODE_SIZE"
  shows "lambda_server_loop c server_regions w =
     (Returns (),
      w\<lparr>heap := (heap w)(the (buf c) := received_buffer c w a2),
        trace := trace w @ [Ibv_post_recv (the (qp c)) MAX_BUFFER_SIZE, Ibv_poll_cq (the (cq c)),
          Stderr ''Invalid metadata received''],
        env := rest\<rparr>)"
  by (subst lambda_server_loop.simps) (simp add: round_rejects_invalid_size [OF assms])

text \<open>The first of two requests has \<^verbatim>\<open>code_size\<close> 0.\<close>

theorem lambda_invalid_code_size_ends_loop_witness:
  "usable config_full world_two_requests \<and>
   code_size (received_metadata config_full world_two_requests (Ans 0 (metadata_bytes 0 0 0) 0)) = 0 \<and>
   lambda_server_loop config_full server_regions_full world_two_requests =
     (Returns (),
      world_two_requests\<lparr>heap := (heap world_two_requests)(the (buf config_full) :=
          received_buffer config_full world_two_requests (Ans 0 (metadata_bytes 0 0 0) 0)),
        trace := trace world_two_requests @ [Ibv_post_recv (the (qp config_full)) MAX_BUFFER_SIZE,
          Ibv_poll_cq (the (cq config_full)), Stderr ''Invalid metadata received''],
        env := [Ans 0 [] 0, Ans 0 (metadata_bytes 16 4 0) 0]\<rparr>)"
proof -
  have u: "usable config_full world_two_requests"
    unfolding world_two_requests_def by (rule usable_server)
  have e: "env world_two_requests = Ans 0 [] 0 # Ans 0 (metadata_bytes 0 0 0) 0 #
      [Ans 0 [] 0, Ans 0 (metadata_bytes 16 4 0) 0]"
    by (simp add: world_two_requests_def)
  have z: "code_size (received_metadata config_full world_two_requests (Ans 0 (metadata_bytes 0 0 0) 0)) = 0"
    unfolding world_two_requests_def received_metadata_server
    by (simp add: le_word_le_bytes_small)
  have "lambda_server_loop config_full server_regions_full world_two_requests =
     (Returns (),
      world_two_requests\<lparr>heap := (heap world_two_requests)(the (buf config_full) :=
          received_buffer config_full world_two_requests (Ans 0 (metadata_bytes 0 0 0) 0)),
        trace := trace world_two_requests @ [Ibv_post_recv (the (qp config_full)) MAX_BUFFER_SIZE,
          Ibv_poll_cq (the (cq config_full)), Stderr ''Invalid metadata received''],
        env := [Ans 0 [] 0, Ans 0 (metadata_bytes 16 4 0) 0]\<rparr>)"
    by (rule lambda_invalid_code_size_ends_loop [OF u e _ _ disjI1 [OF z]]) simp_all
  with u z show ?thesis
    by blast
qed

text \<open>
  C2 as stated fails: with a second, well-formed request on its way, the server that
  receives a \<^verbatim>\<open>code_size\<close> of 0 does not go back to waiting. The loop has returned
  after a single receive, and the answers that make up the second request are still
  with the environment.
\<close>

theorem lambda_invalid_code_size_exits_loop:
  "fst (lambda_server_loop config_full server_regions_full world_two_requests) = Returns () \<and>
   trace (snd (lambda_server_loop config_full server_regions_full world_two_requests)) =
     [Ibv_post_recv 4 4096, Ibv_poll_cq 3, Stderr ''Invalid metadata received''] \<and>
   env (snd (lambda_server_loop config_full server_regions_full world_two_requests)) =
     [Ans 0 [] 0, Ans 0 (metadata_bytes 16 4 0) 0]"
proof -
  have u: "usable config_full world_two_requests"
    unfolding world_two_requests_def by (rule usable_server)
  have e: "env world_two_requests = Ans 0 [] 0 # Ans 0 (metadata_bytes 0 0 0) 0 #
      [Ans 0 [] 0, Ans 0 (metadata_bytes 16 4 0) 0]"
    by (simp add: world_two_requests_def)
  have z: "code_size (received_metadata config_full world_two_requests (Ans 0 (metadata_bytes 0 0 0) 0)) = 0"
    unfolding world_two_requests_def received_metadata_server
    by (simp add: le_word_le_bytes_small)
  have round: "lambda_server_round config_full server_regions_full world_two_requests =
     (Returns False,
      world_two_requests\<lparr>heap := (heap world_two_requests)(the (buf config_full) :=
          received_buffer config_full world_two_requests (Ans 0 (metadata_bytes 0 0 0) 0)),
        trace := trace world_two_requests @ [Ibv_post_recv (the (qp config_full)) MAX_BUFFER_SIZE,
          Ibv_poll_cq (the (cq config_full)), Stderr ''Invalid metadata received''],
        env := [Ans 0 [] 0, Ans 0 (metadata_bytes 16 4 0) 0]\<rparr>)"
    by (rule round_rejects_invalid_size [OF u e _ _ disjI1 [OF z]]) simp_all
  have t: "trace world_two_requests = []" "the (qp config_full) = 4" "the (cq config_full) = 3"
    "MAX_BUFFER_SIZE = 4096"
    by (simp_all add: world_two_requests_def world_server_def world_full_def world_zero_def
        config_full_def MAX_BUFFER_SIZE_def)
  show ?thesis
    by (simp add: lambda_server_loop.simps [of config_full server_regions_full world_two_requests]
        round t)
qed

text \<open>
  C3. The server never jumps into received code at an offset outside it: in every run of
  the loop, whatever the environment does, each call of received code is made with an
  entry offset strictly below a code length that passed the size check. And a request
  whose metadata has \<^verbatim>\<open>entry_offset >= code_size\<close> is rejected: the round that received it
  is the last one of the loop, and it neither calls the code nor sends a result.
\<close>

theorem lambda_entry_offset_inside_code:
  "(list_all call_ok (trace w) \<longrightarrow>
      list_all call_ok (trace (snd (lambda_server_loop c server_regions w)))) \<and>
   (usable c w \<and> env w = a1 # a2 # rest \<and> rc a1 = 0 \<and> rc a2 = 0 \<and>
    entry_offset (received_metadata c w a2) \<ge> code_size (received_metadata c w a2) \<longrightarrow>
      served (trace (snd (lambda_server_loop c server_regions w))) = served (trace w) \<and>
      snd (lambda_server_loop c server_regions w) = snd (lambda_server_round c server_regions w))"
  using calls_ok_loop [of w c server_regions]
    loop_after_rejected_round(1,2) [OF round_rejects_bad_entry, of c w a1 a2 rest server_regions]
  by blast

text \<open>A request with 16 bytes of code and entry offset 16.\<close>

theorem lambda_entry_offset_inside_code_witness:
  "list_all call_ok (trace world_bad_entry) \<and> usable config_full world_bad_entry \<and>
   entry_offset (received_metadata config_full world_bad_entry (Ans 0 (metadata_bytes 16 4 16) 0))
     \<ge> code_size (received_metadata config_full world_bad_entry (Ans 0 (metadata_bytes 16 4 16) 0)) \<and>
   list_all call_ok (trace (snd (lambda_server_loop config_full server_regions_full world_bad_entry))) \<and>
   served (trace (snd (lambda_server_loop config_full server_regions_full world_bad_entry))) = []"
proof -
  let ?rest = "[Ans 0 [] 0, Ans 0 (replicate 16 0x90) 0, Ans 0 [] 0, Ans 0 [97, 98, 99, 0] 0,
      Ans 0 [65, 66, 67, 0] 0]"
  have t: "trace world_bad_entry = []"
    by (simp add: world_bad_entry_def world_server_def world_full_def world_zero_def)
  have u: "usable config_full world_bad_entry"
    unfolding world_bad_entry_def by (rule usable_server)
  have e: "env world_bad_entry = Ans 0 [] 0 # Ans 0 (metadata_bytes 16 4 16) 0 # ?rest"
    by (simp add: world_bad_entry_def)
  have z: "entry_offset (received_metadata config_full world_bad_entry (Ans 0 (metadata_bytes 16 4 16) 0))
     \<ge> code_size (received_metadata config_full world_bad_entry (Ans 0 (metadata_bytes 16 4 16) 0))"
    unfolding world_bad_entry_def received_metadata_server
    by (simp add: le_word_le_bytes_small)
  have p: "usable config_full world_bad_entry \<and>
      env world_bad_entry = Ans 0 [] 0 # Ans 0 (metadata_bytes 16 4 16) 0 # ?rest \<and>
      rc (Ans 0 [] 0) = 0 \<and> rc (Ans 0 (metadata_bytes 16 4 16) 0) = 0 \<and>
      entry_offset (received_metadata config_full world_bad_entry (Ans 0 (metadata_bytes 16 4 16) 0))
        \<ge> code_size (received_metadata config_full world_bad_entry (Ans 0 (metadata_bytes 16 4 16) 0))"
    using u e z by simp
  note inst = lambda_entry_offset_inside_code
    [of world_bad_entry config_full server_regions_full "Ans 0 [] 0" "Ans 0 (metadata_bytes 16 4 16) 0" ?rest]
  from inst [THEN conjunct1] t
  have c: "list_all call_ok (trace (snd (lambda_server_loop config_full server_regions_full world_bad_entry)))"
    by simp
  from inst [THEN conjunct2, THEN mp, OF p, THEN conjunct1] t
  have s: "served (trace (snd (lambda_server_loop config_full server_regions_full world_bad_entry))) = []"
    by (simp add: served_def)
  from t u z c s show ?thesis
    by simp
qed

end
